theory Spec2Isabelle
  imports Main "HOL-Library.Word"
begin

section \<open>FSDecomp: a transparent-decompression overlay over a read-only file store\<close>

text \<open>
  The Go package wraps an \<^verbatim>\<open>fs.FS\<close>. \<^verbatim>\<open>Open\<close> first opens the literal name and, when that
  fails with a not-exist error, the names with the suffixes \<^verbatim>\<open>.gz\<close>, \<^verbatim>\<open>.bz2\<close>, \<^verbatim>\<open>.zst\<close>,
  \<^verbatim>\<open>.lz4\<close>; \<^verbatim>\<open>ReadDir\<close> strips these suffixes from the names of the file entries.

  The file store and the four decompression libraries are outside the package. The store is
  a parameter \<open>store\<close> (what \<^verbatim>\<open>Open\<close> and \<^verbatim>\<open>fs.ReadDir\<close> answer for a path), the libraries
  are a parameter \<open>codecs\<close>. Everything the package does with open handles is written as
  explicit state passing over a \<open>world\<close>: the table of raw handles with the number of times
  each was closed, the table of decoders, the log of the paths the store was asked for, and
  the present state of the store, which the package reads through the values the store gave
  it and never changes.
\<close>

subsection \<open>Errors\<close>

text \<open>
  A Go \<^verbatim>\<open>error\<close> is a sentinel value or a \<^verbatim>\<open>*fs.PathError\<close> that wraps another error.
  \<^verbatim>\<open>errors.Is\<close> walks the chain of wrapped errors.
\<close>

datatype error = Sentinel string | PathError string string error

definition ErrNotExist :: error where
  "ErrNotExist = Sentinel ''file does not exist''"

definition ErrPermission :: error where
  "ErrPermission = Sentinel ''permission denied''"

fun errors_Is :: "error \<Rightarrow> error \<Rightarrow> bool" where
  "errors_Is (Sentinel s) target = (Sentinel s = target)"
| "errors_Is (PathError opn path err) target =
     (if PathError opn path err = target then True else errors_Is err target)"

subsection \<open>Strings\<close>

text \<open>
  \<^verbatim>\<open>strings.HasSuffix(s, suffix)\<close> is
  \<^verbatim>\<open>len(s) >= len(suffix) && s[len(s)-len(suffix):] == suffix\<close>, and
  \<^verbatim>\<open>strings.TrimSuffix\<close> cuts the suffix off when it is there and returns \<open>s\<close> otherwise.
\<close>

definition HasSuffix :: "string \<Rightarrow> string \<Rightarrow> bool" where
  "HasSuffix s suffix =
     (length suffix \<le> length s \<and> drop (length s - length suffix) s = suffix)"

definition TrimSuffix :: "string \<Rightarrow> string \<Rightarrow> string" where
  "TrimSuffix s suffix =
     (if HasSuffix s suffix then take (length s - length suffix) s else s)"

subsection \<open>File metadata and directory entries\<close>

text \<open>
  \<^verbatim>\<open>fs.FileInfo\<close> is an interface. A value of it is either one the store made or the
  package's \<^verbatim>\<open>fileInfoWrapper{FileInfo, name}\<close>, which embeds another \<^verbatim>\<open>FileInfo\<close> and
  overrides \<^verbatim>\<open>Name\<close>. The package never copies what a store-made value answers: it keeps
  the interface value and calls its methods when it is asked. Such a value may be live
  (the \<^verbatim>\<open>FileInfo\<close> of \<^verbatim>\<open>fstest.MapFS\<close> points into the map and computes \<^verbatim>\<open>Size\<close> from the
  data there at each call), so what it answers depends on the state of the store at the
  time of the call. That state is outside the package; a number stands for it, and a
  store-made \<^verbatim>\<open>FileInfo\<close> is the function from the store's state to the record of its
  answers. \<^verbatim>\<open>fs.FileMode\<close> is a \<^verbatim>\<open>uint32\<close>, the size an \<^verbatim>\<open>int64\<close>; the modification time is
  kept as a number. \<^verbatim>\<open>Sys\<close> is left out: the package never calls it and the wrapper does not
  override it.
\<close>

type_synonym byte = "8 word"
type_synonym FileMode = "32 word"
type_synonym store_state = nat

record store_info =
  si_name :: string
  si_size :: "64 word"
  si_mode :: FileMode
  si_modtime :: int
  si_isdir :: bool

datatype FileInfo = StoreInfo "store_state \<Rightarrow> store_info" | fileInfoWrapper FileInfo string

fun Name :: "FileInfo \<Rightarrow> store_state \<Rightarrow> string" where
  "Name (StoreInfo answers) s = si_name (answers s)"
| "Name (fileInfoWrapper info name) s = name"

fun Size :: "FileInfo \<Rightarrow> store_state \<Rightarrow> 64 word" where
  "Size (StoreInfo answers) s = si_size (answers s)"
| "Size (fileInfoWrapper info name) s = Size info s"

fun Mode :: "FileInfo \<Rightarrow> store_state \<Rightarrow> FileMode" where
  "Mode (StoreInfo answers) s = si_mode (answers s)"
| "Mode (fileInfoWrapper info name) s = Mode info s"

fun ModTime :: "FileInfo \<Rightarrow> store_state \<Rightarrow> int" where
  "ModTime (StoreInfo answers) s = si_modtime (answers s)"
| "ModTime (fileInfoWrapper info name) s = ModTime info s"

fun IsDir :: "FileInfo \<Rightarrow> store_state \<Rightarrow> bool" where
  "IsDir (StoreInfo answers) s = si_isdir (answers s)"
| "IsDir (fileInfoWrapper info name) s = IsDir info s"

definition modifyFileInfo :: "FileInfo \<Rightarrow> string \<Rightarrow> FileInfo" where
  "modifyFileInfo info newName = fileInfoWrapper info newName"

text \<open>
  \<^verbatim>\<open>fs.DirEntry\<close> is an interface too: an entry of the store answers \<^verbatim>\<open>Name\<close>, \<^verbatim>\<open>IsDir\<close>,
  \<^verbatim>\<open>Type\<close> and \<^verbatim>\<open>Info\<close> (which may fail); \<open>WrapperEntry info name\<close> is the package's
  \<^verbatim>\<open>&fileInfoWrapper{FileInfo: info, name: name}\<close> seen as a \<^verbatim>\<open>DirEntry\<close>: its \<^verbatim>\<open>Name\<close> is the
  field, \<^verbatim>\<open>IsDir\<close> is promoted from the embedded \<^verbatim>\<open>FileInfo\<close>, \<^verbatim>\<open>Type\<close> returns
  \<^verbatim>\<open>fiw.FileInfo.Mode()\<close> and \<^verbatim>\<open>Info\<close> returns the embedded \<^verbatim>\<open>FileInfo\<close> and no error.
\<close>

record store_entry =
  se_name :: string
  se_isdir :: bool
  se_type :: FileMode
  se_info :: "error + FileInfo"

datatype DirEntry = StoreEntry store_entry | WrapperEntry FileInfo string

fun entry_Name :: "DirEntry \<Rightarrow> string" where
  "entry_Name (StoreEntry e) = se_name e"
| "entry_Name (WrapperEntry info name) = name"

fun entry_IsDir :: "DirEntry \<Rightarrow> store_state \<Rightarrow> bool" where
  "entry_IsDir (StoreEntry e) s = se_isdir e"
| "entry_IsDir (WrapperEntry info name) s = IsDir info s"

fun entry_Type :: "DirEntry \<Rightarrow> store_state \<Rightarrow> FileMode" where
  "entry_Type (StoreEntry e) s = se_type e"
| "entry_Type (WrapperEntry info name) s = Mode info s"

fun entry_Info :: "DirEntry \<Rightarrow> error + FileInfo" where
  "entry_Info (StoreEntry e) = se_info e"
| "entry_Info (WrapperEntry info name) = Inr info"

subsection \<open>The file store and the world of open handles\<close>

text \<open>
  What the store holds at a path: the bytes a handle opened there yields, what \<^verbatim>\<open>Stat\<close> on
  the handle answers and what \<^verbatim>\<open>Close\<close> on it returns.
\<close>

record raw_file =
  rf_data :: "byte list"
  rf_stat :: "error + FileInfo"
  rf_close :: "error option"

record store =
  st_open :: "string \<Rightarrow> error + raw_file"
  st_readdir :: "string \<Rightarrow> error + DirEntry list"

datatype codec = Gzip | Bzip2 | Zstd | Lz4

type_synonym handle = nat

record handle_state =
  hs_file :: raw_file
  hs_closes :: nat

record decoder_state =
  ds_codec :: codec
  ds_src :: handle
  ds_closes :: nat

record world =
  handles :: "handle_state list"
  decoders :: "decoder_state list"
  opened :: "string list"
  store_now :: store_state

definition init_world :: world where
  "init_world = \<lparr>handles = [], decoders = [], opened = [], store_now = 0\<rparr>"

text \<open>
  \<^verbatim>\<open>dfs.FS.Open(path)\<close>: the call is logged; a success allocates a fresh handle, which is
  the index of its entry in the table.
\<close>

definition fs_Open :: "store \<Rightarrow> string \<Rightarrow> world \<Rightarrow> (error + handle) \<times> world" where
  "fs_Open st path w =
     (let w1 = w\<lparr>opened := opened w @ [path]\<rparr>
      in case st_open st path of
           Inl err \<Rightarrow> (Inl err, w1)
         | Inr rf \<Rightarrow>
             (Inr (length (handles w1)),
              w1\<lparr>handles := handles w1 @ [\<lparr>hs_file = rf, hs_closes = 0\<rparr>]\<rparr>))"

text \<open>
  \<^verbatim>\<open>f.Stat()\<close> and \<^verbatim>\<open>f.Close()\<close> on a raw handle. A number that is no handle of the table is
  answered with \<^verbatim>\<open>fs.ErrInvalid\<close> and changes nothing.
\<close>

definition ErrInvalid :: error where
  "ErrInvalid = Sentinel ''invalid argument''"

definition file_Stat :: "handle \<Rightarrow> world \<Rightarrow> error + FileInfo" where
  "file_Stat f w =
     (if f < length (handles w) then rf_stat (hs_file (handles w ! f)) else Inl ErrInvalid)"

definition file_data :: "handle \<Rightarrow> world \<Rightarrow> byte list" where
  "file_data f w = (if f < length (handles w) then rf_data (hs_file (handles w ! f)) else [])"

definition file_Close :: "handle \<Rightarrow> world \<Rightarrow> error option \<times> world" where
  "file_Close f w =
     (if f < length (handles w)
      then (rf_close (hs_file (handles w ! f)),
            w\<lparr>handles := (handles w)[f := (handles w ! f)\<lparr>hs_closes := Suc (hs_closes (handles w ! f))\<rparr>]\<rparr>)
      else (Some ErrInvalid, w))"

subsection \<open>The decompression libraries\<close>

text \<open>
  The four libraries are taken as they are used. \<^verbatim>\<open>gzip.NewReader\<close> and \<^verbatim>\<open>zstd.NewReader\<close>
  return an error or a reader; \<^verbatim>\<open>bzip2.NewReader\<close> and \<^verbatim>\<open>lz4.NewReader\<close> return a reader and
  cannot fail. Reading a decoder to the end (\<^verbatim>\<open>io.ReadAll\<close>) gives the decoded bytes or an
  error. \<^verbatim>\<open>gzip.Reader\<close> has \<^verbatim>\<open>Close() error\<close>; \<^verbatim>\<open>zstd.Decoder\<close> has \<^verbatim>\<open>Close()\<close>, which
  releases its resources and returns nothing; the bzip2 and lz4 readers have no \<^verbatim>\<open>Close\<close>.
  All of them are functions of the raw bytes of the handle they read.
\<close>

record codecs =
  gzip_NewReader :: "byte list \<Rightarrow> error option"
  gzip_ReadAll :: "byte list \<Rightarrow> error + byte list"
  gzip_Close :: "byte list \<Rightarrow> error option"
  bzip2_ReadAll :: "byte list \<Rightarrow> error + byte list"
  zstd_NewReader :: "byte list \<Rightarrow> error option"
  zstd_ReadAll :: "byte list \<Rightarrow> error + byte list"
  lz4_ReadAll :: "byte list \<Rightarrow> error + byte list"

type_synonym decoder = nat

definition new_decoder :: "codec \<Rightarrow> handle \<Rightarrow> world \<Rightarrow> decoder \<times> world" where
  "new_decoder c f w =
     (length (decoders w),
      w\<lparr>decoders := decoders w @ [\<lparr>ds_codec = c, ds_src = f, ds_closes = 0\<rparr>]\<rparr>)"

definition gzip_New :: "codecs \<Rightarrow> handle \<Rightarrow> world \<Rightarrow> (error + decoder) \<times> world" where
  "gzip_New lib f w =
     (case gzip_NewReader lib (file_data f w) of
        Some err \<Rightarrow> (Inl err, w)
      | None \<Rightarrow> (let (d, w1) = new_decoder Gzip f w in (Inr d, w1)))"

definition bzip2_New :: "handle \<Rightarrow> world \<Rightarrow> decoder \<times> world" where
  "bzip2_New f w = new_decoder Bzip2 f w"

definition zstd_New :: "codecs \<Rightarrow> handle \<Rightarrow> world \<Rightarrow> (error + decoder) \<times> world" where
  "zstd_New lib f w =
     (case zstd_NewReader lib (file_data f w) of
        Some err \<Rightarrow> (Inl err, w)
      | None \<Rightarrow> (let (d, w1) = new_decoder Zstd f w in (Inr d, w1)))"

definition lz4_New :: "handle \<Rightarrow> world \<Rightarrow> decoder \<times> world" where
  "lz4_New f w = new_decoder Lz4 f w"

definition decoder_ReadAll :: "codecs \<Rightarrow> decoder \<Rightarrow> world \<Rightarrow> error + byte list" where
  "decoder_ReadAll lib d w =
     (if d < length (decoders w)
      then (let ds = decoders w ! d; raw = file_data (ds_src ds) w
            in case ds_codec ds of
                 Gzip \<Rightarrow> gzip_ReadAll lib raw
               | Bzip2 \<Rightarrow> bzip2_ReadAll lib raw
               | Zstd \<Rightarrow> zstd_ReadAll lib raw
               | Lz4 \<Rightarrow> lz4_ReadAll lib raw)
      else Inl ErrInvalid)"

text \<open>\<^verbatim>\<open>gzReader.Close()\<close>: the only decoder release the package ever calls.\<close>

definition gzip_Reader_Close :: "codecs \<Rightarrow> decoder \<Rightarrow> world \<Rightarrow> error option \<times> world" where
  "gzip_Reader_Close lib d w =
     (if d < length (decoders w)
      then (gzip_Close lib (file_data (ds_src (decoders w ! d)) w),
            w\<lparr>decoders := (decoders w)[d := (decoders w ! d)\<lparr>ds_closes := Suc (ds_closes (decoders w ! d))\<rparr>]\<rparr>)
      else (Some ErrInvalid, w))"

subsection \<open>The files the package returns\<close>

text \<open>
  \<^verbatim>\<open>Open\<close> returns an \<^verbatim>\<open>fs.File\<close>: the store's own file, or a
  \<^verbatim>\<open>&decompressFile{reader, closer, info, originalFS}\<close>. The \<open>closer\<close> field is an
  \<^verbatim>\<open>io.Closer\<close>: the raw file, a gzip reader, or a \<^verbatim>\<open>multiCloser{c1, c2}\<close>.
\<close>

datatype closer = fileCloser handle | gzipCloser decoder | multiCloser closer closer

datatype File = rawFile handle | decompressFile decoder closer "FileInfo option" handle

fun closer_Close :: "codecs \<Rightarrow> closer \<Rightarrow> world \<Rightarrow> error option \<times> world" where
  "closer_Close lib (fileCloser f) w = file_Close f w"
| "closer_Close lib (gzipCloser d) w = gzip_Reader_Close lib d w"
| "closer_Close lib (multiCloser c1 c2) w =
     (let (err1, w1) = closer_Close lib c1 w;
          (err2, w2) = closer_Close lib c2 w1
      in if err1 \<noteq> None then (err1, w2) else (err2, w2))"

fun File_Stat :: "File \<Rightarrow> world \<Rightarrow> error + FileInfo" where
  "File_Stat (rawFile f) w = file_Stat f w"
| "File_Stat (decompressFile reader closer info originalFS) w =
     (case info of Some i \<Rightarrow> Inr i | None \<Rightarrow> file_Stat originalFS w)"

text \<open>Reading a file to its end, as \<^verbatim>\<open>io.ReadAll\<close> does through \<^verbatim>\<open>Read\<close>.\<close>

fun File_ReadAll :: "codecs \<Rightarrow> File \<Rightarrow> world \<Rightarrow> error + byte list" where
  "File_ReadAll lib (rawFile f) w =
     (if f < length (handles w) then Inr (file_data f w) else Inl ErrInvalid)"
| "File_ReadAll lib (decompressFile reader closer info originalFS) w =
     decoder_ReadAll lib reader w"

fun File_Close :: "codecs \<Rightarrow> File \<Rightarrow> world \<Rightarrow> error option \<times> world" where
  "File_Close lib (rawFile f) w = file_Close f w"
| "File_Close lib (decompressFile reader closer info originalFS) w =
     closer_Close lib closer w"

subsection \<open>The adapters\<close>

definition newGzipFile :: "codecs \<Rightarrow> handle \<Rightarrow> world \<Rightarrow> (error + File) \<times> world" where
  "newGzipFile lib f w =
     (case gzip_New lib f w of
        (Inl err, w1) \<Rightarrow> (Inl err, snd (file_Close f w1))
      | (Inr gzReader, w1) \<Rightarrow>
          (case file_Stat f w1 of
             Inl err \<Rightarrow> (Inl err, snd (file_Close f w1))
           | Inr info \<Rightarrow>
               (Inr (decompressFile gzReader
                       (multiCloser (gzipCloser gzReader) (fileCloser f))
                       (Some (modifyFileInfo info (TrimSuffix (Name info (store_now w1)) ''.gz'')))
                       f),
                w1)))"

definition newBzip2File :: "codecs \<Rightarrow> handle \<Rightarrow> world \<Rightarrow> (error + File) \<times> world" where
  "newBzip2File lib f w =
     (let (bzReader, w1) = bzip2_New f w
      in case file_Stat f w1 of
           Inl err \<Rightarrow> (Inl err, snd (file_Close f w1))
         | Inr info \<Rightarrow>
             (Inr (decompressFile bzReader
                     (fileCloser f)
                     (Some (modifyFileInfo info (TrimSuffix (Name info (store_now w1)) ''.bz2'')))
                     f),
              w1))"

definition newZstdFile :: "codecs \<Rightarrow> handle \<Rightarrow> world \<Rightarrow> (error + File) \<times> world" where
  "newZstdFile lib f w =
     (case zstd_New lib f w of
        (Inl err, w1) \<Rightarrow> (Inl err, snd (file_Close f w1))
      | (Inr zstReader, w1) \<Rightarrow>
          (case file_Stat f w1 of
             Inl err \<Rightarrow> (Inl err, snd (file_Close f w1))
           | Inr info \<Rightarrow>
               (Inr (decompressFile zstReader
                       (fileCloser f)
                       (Some (modifyFileInfo info (TrimSuffix (Name info (store_now w1)) ''.zst'')))
                       f),
                w1)))"

definition newLz4File :: "codecs \<Rightarrow> handle \<Rightarrow> world \<Rightarrow> (error + File) \<times> world" where
  "newLz4File lib f w =
     (let (lz4Reader, w1) = lz4_New f w
      in case file_Stat f w1 of
           Inl err \<Rightarrow> (Inl err, snd (file_Close f w1))
         | Inr info \<Rightarrow>
             (Inr (decompressFile lz4Reader
                     (fileCloser f)
                     (Some (modifyFileInfo info (TrimSuffix (Name info (store_now w1)) ''.lz4'')))
                     f),
              w1))"

subsection \<open>Open\<close>

definition Open :: "codecs \<Rightarrow> store \<Rightarrow> string \<Rightarrow> world \<Rightarrow> (error + File) \<times> world" where
  "Open lib st name w =
     (case fs_Open st name w of
        (Inr file, w1) \<Rightarrow> (Inr (rawFile file), w1)
      | (Inl err, w1) \<Rightarrow>
          if errors_Is err ErrNotExist
          then (case fs_Open st (name @ ''.gz'') w1 of
                  (Inr gzFile, w2) \<Rightarrow> newGzipFile lib gzFile w2
                | (Inl gzErr, w2) \<Rightarrow>
               (case fs_Open st (name @ ''.bz2'') w2 of
                  (Inr bz2File, w3) \<Rightarrow> newBzip2File lib bz2File w3
                | (Inl bz2Err, w3) \<Rightarrow>
               (case fs_Open st (name @ ''.zst'') w3 of
                  (Inr zstFile, w4) \<Rightarrow> newZstdFile lib zstFile w4
                | (Inl zstErr, w4) \<Rightarrow>
               (case fs_Open st (name @ ''.lz4'') w4 of
                  (Inr lz4File, w5) \<Rightarrow> newLz4File lib lz4File w5
                | (Inl lz4Err, w5) \<Rightarrow> (Inl err, w5)))))
          else (Inl err, w1))"

subsection \<open>ReadDir\<close>

text \<open>
  The loop of \<^verbatim>\<open>ReadDir\<close> goes through the entries once and replaces an entry in place;
  the first failing \<^verbatim>\<open>entry.Info()\<close> ends it with that error. The four \<^verbatim>\<open>TrimSuffix\<close> calls
  run one after the other on the result of the one before. The listing opens and closes
  nothing; of the world it only reads the state of the store, through \<^verbatim>\<open>entry.IsDir()\<close>.
\<close>

definition hasCompressionSuffix :: "string \<Rightarrow> bool" where
  "hasCompressionSuffix name =
     (HasSuffix name ''.gz'' \<or> HasSuffix name ''.bz2'' \<or> HasSuffix name ''.zst''
      \<or> HasSuffix name ''.lz4'')"

definition trimCompressionSuffixes :: "string \<Rightarrow> string" where
  "trimCompressionSuffixes name =
     (let newName = TrimSuffix name ''.gz'';
          newName = TrimSuffix newName ''.bz2'';
          newName = TrimSuffix newName ''.zst'';
          newName = TrimSuffix newName ''.lz4''
      in newName)"

fun ReadDir_loop :: "store_state \<Rightarrow> DirEntry list \<Rightarrow> error + DirEntry list" where
  "ReadDir_loop s [] = Inr []"
| "ReadDir_loop s (entry # rest) =
     (if entry_IsDir entry s
      then (case ReadDir_loop s rest of Inl err \<Rightarrow> Inl err | Inr es \<Rightarrow> Inr (entry # es))
      else (case entry_Info entry of
              Inl err \<Rightarrow> Inl err
            | Inr info \<Rightarrow>
                (let name = entry_Name entry;
                     entry' = (if hasCompressionSuffix name
                               then WrapperEntry info (trimCompressionSuffixes name)
                               else entry)
                 in case ReadDir_loop s rest of
                      Inl err \<Rightarrow> Inl err
                    | Inr es \<Rightarrow> Inr (entry' # es))))"

definition ReadDir :: "store \<Rightarrow> string \<Rightarrow> world \<Rightarrow> error + DirEntry list" where
  "ReadDir st name w =
     (case st_readdir st name of
        Inl err \<Rightarrow> Inl err
      | Inr entries \<Rightarrow> ReadDir_loop (store_now w) entries)"

subsection \<open>A store in memory and a set of small codecs\<close>

text \<open>
  For concrete runs: a store given by a table of paths, as \<^verbatim>\<open>fstest.MapFS\<close> in the
  package's tests, which answers a missing path with a \<^verbatim>\<open>PathError\<close> around
  \<^verbatim>\<open>fs.ErrNotExist\<close>; and four codecs whose format is one magic byte followed by the
  content, where the gzip and zstd constructors check the magic byte at once and the other
  two on reading.
\<close>

definition notExist :: "string \<Rightarrow> string \<Rightarrow> error" where
  "notExist opn path = PathError opn path ErrNotExist"

text \<open>
  Two kinds of store-made metadata: one whose answers never change, and a live one, as that
  of \<^verbatim>\<open>fstest.MapFS\<close>, whose size and modification time follow the state of the store.
\<close>

definition fixed_info :: "store_info \<Rightarrow> FileInfo" where
  "fixed_info i = StoreInfo (\<lambda>s. i)"

definition growing_info :: "string \<Rightarrow> nat \<Rightarrow> FileInfo" where
  "growing_info name n =
     StoreInfo (\<lambda>s. \<lparr>si_name = name, si_size = of_nat (n + s), si_mode = 0x1A4,
                       si_modtime = int s, si_isdir = False\<rparr>)"

definition MapFile :: "string \<Rightarrow> byte list \<Rightarrow> raw_file" where
  "MapFile name data =
     \<lparr>rf_data = data,
      rf_stat = Inr (fixed_info \<lparr>si_name = name, si_size = of_nat (length data),
                                si_mode = 0x1A4, si_modtime = 0, si_isdir = False\<rparr>),
      rf_close = None\<rparr>"

definition MapFS :: "(string \<times> raw_file) list \<Rightarrow> (string \<times> DirEntry list) list \<Rightarrow> store" where
  "MapFS files dirs =
     \<lparr>st_open = (\<lambda>path. case map_of files path of
                          None \<Rightarrow> Inl (notExist ''open'' path)
                        | Some rf \<Rightarrow> Inr rf),
      st_readdir = (\<lambda>path. case map_of dirs path of
                             None \<Rightarrow> Inl (notExist ''readdir'' path)
                           | Some es \<Rightarrow> Inr es)\<rparr>"

definition ErrHeader :: error where
  "ErrHeader = Sentinel ''invalid header''"

definition check_magic :: "byte \<Rightarrow> byte list \<Rightarrow> error option" where
  "check_magic m data =
     (case data of [] \<Rightarrow> Some ErrHeader | b # rest \<Rightarrow> if b = m then None else Some ErrHeader)"

definition unframe :: "byte \<Rightarrow> byte list \<Rightarrow> error + byte list" where
  "unframe m data =
     (case data of [] \<Rightarrow> Inl ErrHeader | b # rest \<Rightarrow> if b = m then Inr rest else Inl ErrHeader)"

definition framed_codecs :: codecs where
  "framed_codecs =
     \<lparr>gzip_NewReader = check_magic 0x1F,
      gzip_ReadAll = unframe 0x1F,
      gzip_Close = (\<lambda>data. None),
      bzip2_ReadAll = unframe 0x42,
      zstd_NewReader = check_magic 0x28,
      zstd_ReadAll = unframe 0x28,
      lz4_ReadAll = unframe 0x04\<rparr>"

definition testFS :: store where
  "testFS = MapFS
     [(''normal.txt'', MapFile ''normal.txt'' [0x68, 0x69]),
      (''normal.txt.gz'', MapFile ''normal.txt.gz'' [0x1F, 0x6F]),
      (''compressed.txt.gz'', MapFile ''compressed.txt.gz'' [0x1F, 0x61, 0x62]),
      (''archive.txt.bz2'', MapFile ''archive.txt.bz2'' [0x42, 0x63]),
      (''archive.txt.lz4'', MapFile ''archive.txt.lz4'' [0x04, 0x64]),
      (''file.txt.zst'', MapFile ''file.txt.zst'' [0x28, 0x65]),
      (''broken.txt.gz'', MapFile ''broken.txt.gz'' [0x00]),
      (''collide.txt.gz'', MapFile ''collide.txt.gz'' [0x00]),
      (''collide.txt.bz2'', MapFile ''collide.txt.bz2'' [0x42, 0x66]),
      (''nostat.txt.gz'',
         (MapFile ''nostat.txt.gz'' [0x1F, 0x67])\<lparr>rf_stat := Inl ErrPermission\<rparr>),
      (''stacked/a.lz4.gz'', MapFile ''a.lz4.gz'' [0x1F, 0x04, 0x68]),
      (''grow.txt.gz'',
         (MapFile ''grow.txt.gz'' [0x1F, 0x69])\<lparr>rf_stat := Inr (growing_info ''grow.txt.gz'' 2)\<rparr>)]
     [(''dir'',
         [StoreEntry \<lparr>se_name = ''regular.txt'', se_isdir = False, se_type = 0,
                      se_info = rf_stat (MapFile ''regular.txt'' [0x68])\<rparr>,
          StoreEntry \<lparr>se_name = ''compressed.txt.gz'', se_isdir = False, se_type = 0,
                      se_info = rf_stat (MapFile ''compressed.txt.gz'' [0x1F, 0x61])\<rparr>,
          StoreEntry \<lparr>se_name = ''subdir'', se_isdir = True, se_type = 0x80000000,
                      se_info = Inl (notExist ''lstat'' ''dir/subdir'')\<rparr>]),
      (''stacked'',
         [StoreEntry \<lparr>se_name = ''a.lz4.gz'', se_isdir = False, se_type = 0,
                      se_info = rf_stat (MapFile ''a.lz4.gz'' [0x1F, 0x04, 0x68])\<rparr>]),
      (''vanished'',
         [StoreEntry \<lparr>se_name = ''regular.txt'', se_isdir = False, se_type = 0,
                      se_info = Inl (notExist ''lstat'' ''vanished/regular.txt'')\<rparr>])]"

text \<open>The same store behind a fault: one literal name is answered with a permission error.\<close>

definition faultyFS :: store where
  "faultyFS = testFS\<lparr>st_open :=
     (\<lambda>path. if path = ''normal.txt'' then Inl (PathError ''open'' path ErrPermission)
             else st_open testFS path)\<rparr>"

subsection \<open>The vocabulary of the specification\<close>

text \<open>
  The specification speaks of a codec registry, an ordered table from suffix to codec, and of
  an adapter \<open>Adapt(codec, rawStream)\<close>. The package has no such table: \<open>Open\<close> branches on
  the four suffixes and calls one constructor function per codec. The two definitions below
  follow the specification's words, so that the theorems can say how \<open>Open\<close> relates to them.
\<close>

definition codec_registry :: "(string \<times> codec) list" where
  "codec_registry = [(''.gz'', Gzip), (''.bz2'', Bzip2), (''.zst'', Zstd), (''.lz4'', Lz4)]"

fun Adapt :: "codecs \<Rightarrow> codec \<Rightarrow> handle \<Rightarrow> world \<Rightarrow> (error + File) \<times> world" where
  "Adapt lib Gzip f w = newGzipFile lib f w"
| "Adapt lib Bzip2 f w = newBzip2File lib f w"
| "Adapt lib Zstd f w = newZstdFile lib f w"
| "Adapt lib Lz4 f w = newLz4File lib f w"

text \<open>
  The world after the store was asked for \<open>paths\<close> in turn and only the last of them opened,
  on the content \<open>rf\<close>.
\<close>

definition opened_raw :: "world \<Rightarrow> string list \<Rightarrow> raw_file \<Rightarrow> world" where
  "opened_raw w paths rf =
     w\<lparr>opened := opened w @ paths,
       handles := handles w @ [\<lparr>hs_file = rf, hs_closes = 0\<rparr>]\<rparr>"

text \<open>
  Whether the library's constructor rejects raw bytes, and what reading its decoder to the
  end gives. Raw bytes are an encoding of a content when the constructor accepts them and
  the decoder reads them to that content.
\<close>

definition constructor_error :: "codecs \<Rightarrow> codec \<Rightarrow> byte list \<Rightarrow> error option" where
  "constructor_error lib c raw =
     (case c of
        Gzip \<Rightarrow> gzip_NewReader lib raw
      | Bzip2 \<Rightarrow> None
      | Zstd \<Rightarrow> zstd_NewReader lib raw
      | Lz4 \<Rightarrow> None)"

definition decoded :: "codecs \<Rightarrow> codec \<Rightarrow> byte list \<Rightarrow> error + byte list" where
  "decoded lib c raw =
     (case c of
        Gzip \<Rightarrow> gzip_ReadAll lib raw
      | Bzip2 \<Rightarrow> bzip2_ReadAll lib raw
      | Zstd \<Rightarrow> zstd_ReadAll lib raw
      | Lz4 \<Rightarrow> lz4_ReadAll lib raw)"

definition encodes :: "codecs \<Rightarrow> codec \<Rightarrow> byte list \<Rightarrow> byte list \<Rightarrow> bool" where
  "encodes lib c raw content =
     (constructor_error lib c raw = None \<and> decoded lib c raw = Inr content)"

text \<open>What the listing does to one entry whose metadata can be fetched.\<close>

definition rewrite_entry :: "store_state \<Rightarrow> DirEntry \<Rightarrow> DirEntry" where
  "rewrite_entry s entry =
     (if entry_IsDir entry s then entry
      else if hasCompressionSuffix (entry_Name entry)
      then (case entry_Info entry of
              Inr info \<Rightarrow> WrapperEntry info (trimCompressionSuffixes (entry_Name entry))
            | Inl err \<Rightarrow> entry)
      else entry)"

section \<open>Properties of Open\<close>

text \<open>What the two kinds of store-made metadata of the test store answer.\<close>

lemma fixed_info_simps [simp]:
  "Name (fixed_info i) s = si_name i" "Size (fixed_info i) s = si_size i"
  "Mode (fixed_info i) s = si_mode i" "ModTime (fixed_info i) s = si_modtime i"
  "IsDir (fixed_info i) s = si_isdir i"
  by (simp_all add: fixed_info_def)

lemma growing_info_simps [simp]:
  "Name (growing_info name n) s = name" "Size (growing_info name n) s = of_nat (n + s)"
  "Mode (growing_info name n) s = 0x1A4" "ModTime (growing_info name n) s = int s"
  "IsDir (growing_info name n) s = False"
  by (simp_all add: growing_info_def)

lemma fs_Open_Inr:
  "st_open st p = Inr rf \<Longrightarrow> fs_Open st p w = (Inr (length (handles w)), opened_raw w [p] rf)"
  by (simp add: fs_Open_def opened_raw_def)

lemma fs_Open_Inl:
  "st_open st p = Inl e \<Longrightarrow> fs_Open st p w = (Inl e, w\<lparr>opened := opened w @ [p]\<rparr>)"
  by (simp add: fs_Open_def)

text \<open>
  The shared fact about probing: when the literal name is not found and the registry's
  suffix number \<open>i\<close> is the first one the store opens, \<open>Open\<close> is the adapter of that codec on
  the fresh handle, and the store was asked for the literal name and the suffixes up to
  number \<open>i\<close>, in registry order, and for nothing else.
\<close>

lemma Open_probe:
  assumes lit: "st_open st name = Inl err" and ne: "errors_Is err ErrNotExist"
    and i: "i < length codec_registry"
    and before: "\<forall>j<i. isl (st_open st (name @ fst (codec_registry ! j)))"
    and hit: "st_open st (name @ fst (codec_registry ! i)) = Inr rf"
  shows "Open lib st name w =
           Adapt lib (snd (codec_registry ! i)) (length (handles w))
             (opened_raw w (name # map (\<lambda>s. name @ s) (take (Suc i) (map fst codec_registry))) rf)"
proof -
  from i have "i = 0 \<or> i = 1 \<or> i = 2 \<or> i = 3"
    by (auto simp: codec_registry_def)
  then show ?thesis
  proof (elim disjE)
    assume i0: "i = 0"
    with hit have "st_open st (name @ ''.gz'') = Inr rf"
      by (simp add: codec_registry_def)
    then show ?thesis using lit ne i0
      by (simp add: Open_def fs_Open_def opened_raw_def codec_registry_def)
  next
    assume i1: "i = 1"
    with hit have h: "st_open st (name @ ''.bz2'') = Inr rf"
      by (simp add: codec_registry_def)
    from before i1 have "isl (st_open st (name @ ''.gz''))"
      by (simp add: codec_registry_def)
    then obtain e0 where "st_open st (name @ ''.gz'') = Inl e0"
      by (auto simp: isl_def)
    then show ?thesis using lit ne i1 h
      by (simp add: Open_def fs_Open_def opened_raw_def codec_registry_def)
  next
    assume i2: "i = 2"
    with hit have h: "st_open st (name @ ''.zst'') = Inr rf"
      by (simp add: codec_registry_def)
    from before i2 have "isl (st_open st (name @ fst (codec_registry ! 0)))"
      "isl (st_open st (name @ fst (codec_registry ! 1)))" by simp_all
    then obtain e0 e1 where "st_open st (name @ ''.gz'') = Inl e0"
      "st_open st (name @ ''.bz2'') = Inl e1"
      by (auto simp: isl_def codec_registry_def)
    then show ?thesis using lit ne i2 h
      by (simp add: Open_def fs_Open_def opened_raw_def codec_registry_def)
  next
    assume i3: "i = 3"
    with hit have h: "st_open st (name @ ''.lz4'') = Inr rf"
      by (simp add: codec_registry_def)
    from before i3 have "isl (st_open st (name @ fst (codec_registry ! 0)))"
      "isl (st_open st (name @ fst (codec_registry ! 1)))"
      "isl (st_open st (name @ fst (codec_registry ! 2)))" by simp_all
    then obtain e0 e1 e2 where "st_open st (name @ ''.gz'') = Inl e0"
      "st_open st (name @ ''.bz2'') = Inl e1" "st_open st (name @ ''.zst'') = Inl e2"
      by (auto simp: isl_def codec_registry_def)
    then show ?thesis using lit ne i3 h
      by (simp add: Open_def fs_Open_def opened_raw_def codec_registry_def
          numeral_2_eq_2 numeral_3_eq_3)
  qed
qed

section \<open>Properties of the adapters\<close>

text \<open>
  The four constructor functions on the handle that a suffixed open has just made. They
  succeed exactly when the library's constructor accepts the bytes and \<open>Stat\<close> on the raw
  handle succeeds; on success the file carries the raw metadata under the trimmed name; on
  failure the raw handle was closed once.
\<close>

lemmas adapter_defs =
  newGzipFile_def newBzip2File_def newZstdFile_def newLz4File_def
  gzip_New_def bzip2_New_def zstd_New_def lz4_New_def new_decoder_def
  file_Stat_def file_data_def file_Close_def opened_raw_def

lemma Adapt_roundtrip:
  assumes "encodes lib c (rf_data rf) content" and "rf_stat rf = Inr info"
  shows "\<exists>f w'. Adapt lib c (length (handles w)) (opened_raw w paths rf) = (Inr f, w')
               \<and> File_ReadAll lib f w' = Inr content"
  using assms
  by (cases c)
     (simp_all add: encodes_def constructor_error_def decoded_def adapter_defs decoder_ReadAll_def)

lemma Adapt_info:
  assumes "(sfx, c) \<in> set codec_registry"
    and "Adapt lib c (length (handles w)) (opened_raw w paths rf) = (Inr f, w')"
  shows "\<exists>info. rf_stat rf = Inr info
           \<and> (\<forall>w''. File_Stat f w''
                  = Inr (fileInfoWrapper info (TrimSuffix (Name info (store_now w)) sfx)))"
  using assms
  by (cases c)
     (auto simp: codec_registry_def adapter_defs modifyFileInfo_def
        split: option.splits sum.splits)

lemma Adapt_success:
  assumes "Adapt lib c (length (handles w)) (opened_raw w paths rf) = (Inr f, w')"
  shows "(\<exists>cl info. f = decompressFile (length (decoders w)) cl (Some info) (length (handles w)))
       \<and> w' = (opened_raw w paths rf)
               \<lparr>decoders := decoders w @ [\<lparr>ds_codec = c, ds_src = length (handles w),
                                            ds_closes = 0\<rparr>]\<rparr>
       \<and> File_ReadAll lib f w' = decoded lib c (rf_data rf)"
  using assms
  by (cases c)
     (auto simp: adapter_defs decoder_ReadAll_def decoded_def split: option.splits sum.splits)

lemma Adapt_failure:
  "isl (fst (Adapt lib c (length (handles w)) (opened_raw w paths rf)))
     = (constructor_error lib c (rf_data rf) \<noteq> None \<or> isl (rf_stat rf))"
  by (cases c)
     (auto simp: constructor_error_def adapter_defs split: option.splits sum.splits)

lemma Adapt_failure_closes:
  assumes "Adapt lib c (length (handles w)) (opened_raw w paths rf) = (Inl e, w')"
  shows "handles w' = handles w @ [\<lparr>hs_file = rf, hs_closes = 1\<rparr>] \<and> opened w' = opened w @ paths"
  using assms
  by (cases c)
     (auto simp: adapter_defs split: option.splits sum.splits)

lemma registry_nth_mem: "i < length codec_registry \<Longrightarrow>
   (fst (codec_registry ! i), snd (codec_registry ! i)) \<in> set codec_registry"
  by simp

section \<open>Resolution by Open\<close>

text \<open>
  Claim C2 (priority of the literal file). When the store opens the literal name, \<open>Open\<close>
  returns that raw file itself: the store was asked for the literal name and for nothing
  else, no decoder was made, reading the file gives the store's bytes and its \<open>Stat\<close> is the
  store's, whatever the store holds under the suffixed names.
\<close>

theorem Open_literal_priority:
  assumes "st_open st name = Inr rf"
  shows "Open lib st name w = (Inr (rawFile (length (handles w))), opened_raw w [name] rf)
       \<and> File_ReadAll lib (rawFile (length (handles w))) (opened_raw w [name] rf) = Inr (rf_data rf)
       \<and> File_Stat (rawFile (length (handles w))) (opened_raw w [name] rf) = rf_stat rf"
  using assms by (simp add: Open_def fs_Open_Inr opened_raw_def file_data_def file_Stat_def)

theorem Open_literal_priority_witness:
  "st_open testFS ''normal.txt'' = Inr (MapFile ''normal.txt'' [0x68, 0x69])
   \<and> st_open testFS ''normal.txt.gz'' = Inr (MapFile ''normal.txt.gz'' [0x1F, 0x6F])
   \<and> Open framed_codecs testFS ''normal.txt'' init_world =
       (Inr (rawFile 0),
        \<lparr>handles = [\<lparr>hs_file = MapFile ''normal.txt'' [0x68, 0x69], hs_closes = 0\<rparr>],
         decoders = [], opened = [''normal.txt''], store_now = 0\<rparr>)
   \<and> File_ReadAll framed_codecs (rawFile 0) (opened_raw init_world [''normal.txt''] (MapFile ''normal.txt'' [0x68, 0x69])) = Inr [0x68, 0x69]"
proof -
  have h: "st_open testFS ''normal.txt'' = Inr (MapFile ''normal.txt'' [0x68, 0x69])"
    by (simp add: testFS_def MapFS_def)
  have g: "st_open testFS ''normal.txt.gz'' = Inr (MapFile ''normal.txt.gz'' [0x1F, 0x6F])"
    by (simp add: testFS_def MapFS_def)
  show ?thesis
    using h g Open_literal_priority [OF h, of framed_codecs init_world]
    by (simp add: init_world_def opened_raw_def MapFile_def)
qed

text \<open>
  Claim C3 (probing order). When the literal name is not found, \<open>Open\<close> asks the store for the
  name with \<open>.gz\<close>, \<open>.bz2\<close>, \<open>.zst\<close>, \<open>.lz4\<close> in this order; the first suffix the store
  opens wins and no later suffix is asked for: the log of the store holds the literal name
  and the suffixed names up to the winning one. The handle of that open goes to the adapter
  of that suffix's codec: \<open>Open\<close> fails exactly when that codec's constructor rejects the
  bytes or \<open>Stat\<close> on the handle fails, and otherwise the returned file reads from a new
  decoder of that codec whose source is the new handle, the handle is still open, and
  reading the file to its end gives what that codec's decoder reads from the raw bytes.
\<close>

theorem Open_probe_order:
  assumes "st_open st name = Inl err" and "errors_Is err ErrNotExist"
    and "i < length codec_registry"
    and "\<forall>j<i. isl (st_open st (name @ fst (codec_registry ! j)))"
    and "st_open st (name @ fst (codec_registry ! i)) = Inr rf"
  shows "Open lib st name w =
           Adapt lib (snd (codec_registry ! i)) (length (handles w))
             (opened_raw w (name # map (\<lambda>s. name @ s) (take (Suc i) (map fst codec_registry))) rf)
       \<and> opened (snd (Open lib st name w))
           = opened w @ name # map (\<lambda>s. name @ s) (take (Suc i) (map fst codec_registry))
       \<and> isl (fst (Open lib st name w))
           = (constructor_error lib (snd (codec_registry ! i)) (rf_data rf) \<noteq> None
              \<or> isl (rf_stat rf))
       \<and> (\<forall>f w'. Open lib st name w = (Inr f, w') \<longrightarrow>
             (\<exists>cl info. f = decompressFile (length (decoders w)) cl (Some info)
                              (length (handles w)))
           \<and> handles w' = handles w @ [\<lparr>hs_file = rf, hs_closes = 0\<rparr>]
           \<and> decoders w'
               = decoders w @ [\<lparr>ds_codec = snd (codec_registry ! i),
                                ds_src = length (handles w), ds_closes = 0\<rparr>]
           \<and> File_ReadAll lib f w' = decoded lib (snd (codec_registry ! i)) (rf_data rf))"
proof -
  let ?paths = "name # map (\<lambda>s. name @ s) (take (Suc i) (map fst codec_registry))"
  let ?c = "snd (codec_registry ! i)"
  let ?w1 = "opened_raw w ?paths rf"
  let ?d = "\<lparr>ds_codec = ?c, ds_src = length (handles w), ds_closes = 0\<rparr>"
  let ?r = "Adapt lib ?c (length (handles w)) ?w1"
  have eq: "Open lib st name w = ?r"
    using assms by (rule Open_probe)
  have fail: "isl (fst ?r) = (constructor_error lib ?c (rf_data rf) \<noteq> None \<or> isl (rf_stat rf))"
    by (rule Adapt_failure)
  have shape: "\<exists>cl info. f = decompressFile (length (decoders w)) cl (Some info)
                              (length (handles w))"
    and world: "w' = ?w1\<lparr>decoders := decoders w @ [?d]\<rparr>"
    and read: "File_ReadAll lib f w' = decoded lib ?c (rf_data rf)"
    if "?r = (Inr f, w')" for f w'
    using Adapt_success [OF that] by blast+
  have log: "opened (snd ?r) = opened w @ ?paths"
  proof (cases ?r)
    case (Pair res w')
    show ?thesis
    proof (cases res)
      case (Inl e)
      with Pair have "?r = (Inl e, w')" by simp
      from Adapt_failure_closes [OF this] Pair show ?thesis by simp
    next
      case (Inr f)
      with Pair have "?r = (Inr f, w')" by simp
      from world [OF this] Pair show ?thesis by (simp add: opened_raw_def)
    qed
  qed
  have succ: "(\<exists>cl info. f = decompressFile (length (decoders w)) cl (Some info)
                              (length (handles w)))
           \<and> handles w' = handles w @ [\<lparr>hs_file = rf, hs_closes = 0\<rparr>]
           \<and> decoders w' = decoders w @ [?d]
           \<and> File_ReadAll lib f w' = decoded lib ?c (rf_data rf)"
    if o: "Open lib st name w = (Inr f, w')" for f w'
  proof -
    from o eq have r: "?r = (Inr f, w')" by simp
    from world [OF r] have "handles w' = handles w @ [\<lparr>hs_file = rf, hs_closes = 0\<rparr>]"
      and "decoders w' = decoders w @ [?d]"
      by (simp_all add: opened_raw_def)
    with shape [OF r] read [OF r] show ?thesis by blast
  qed
  from log eq have log': "opened (snd (Open lib st name w)) = opened w @ ?paths"
    by simp
  from fail eq have fail': "isl (fst (Open lib st name w))
           = (constructor_error lib ?c (rf_data rf) \<noteq> None \<or> isl (rf_stat rf))"
    by simp
  from eq log' fail' succ show ?thesis
    by blast
qed

theorem Open_probe_order_witness:
  "st_open testFS ''archive.txt'' = Inl (notExist ''open'' ''archive.txt'')
   \<and> errors_Is (notExist ''open'' ''archive.txt'') ErrNotExist
   \<and> (1::nat) < length codec_registry
   \<and> isl (st_open testFS ''archive.txt.gz'')
   \<and> st_open testFS ''archive.txt.bz2'' = Inr (MapFile ''archive.txt.bz2'' [0x42, 0x63])
   \<and> st_open testFS ''archive.txt.lz4'' = Inr (MapFile ''archive.txt.lz4'' [0x04, 0x64])
   \<and> Open framed_codecs testFS ''archive.txt'' init_world
        = (Inr (decompressFile 0 (fileCloser 0)
                 (Some (fileInfoWrapper
                          (fixed_info \<lparr>si_name = ''archive.txt.bz2'', si_size = 2,
                                       si_mode = 0x1A4, si_modtime = 0, si_isdir = False\<rparr>)
                          ''archive.txt''))
                 0),
           \<lparr>handles = [\<lparr>hs_file = MapFile ''archive.txt.bz2'' [0x42, 0x63], hs_closes = 0\<rparr>],
            decoders = [\<lparr>ds_codec = Bzip2, ds_src = 0, ds_closes = 0\<rparr>],
            opened = [''archive.txt'', ''archive.txt.gz'', ''archive.txt.bz2''], store_now = 0\<rparr>)
   \<and> opened (snd (Open framed_codecs testFS ''archive.txt'' init_world))
        = [''archive.txt'', ''archive.txt.gz'', ''archive.txt.bz2'']
   \<and> decoded framed_codecs Bzip2 [0x42, 0x63] = Inr [0x63]
   \<and> File_ReadAll framed_codecs
        (decompressFile 0 (fileCloser 0)
                 (Some (fileInfoWrapper
                          (fixed_info \<lparr>si_name = ''archive.txt.bz2'', si_size = 2,
                                       si_mode = 0x1A4, si_modtime = 0, si_isdir = False\<rparr>)
                          ''archive.txt''))
                 0)
        \<lparr>handles = [\<lparr>hs_file = MapFile ''archive.txt.bz2'' [0x42, 0x63], hs_closes = 0\<rparr>],
         decoders = [\<lparr>ds_codec = Bzip2, ds_src = 0, ds_closes = 0\<rparr>],
         opened = [''archive.txt'', ''archive.txt.gz'', ''archive.txt.bz2''], store_now = 0\<rparr>
       = Inr [0x63]"
proof -
  have lit: "st_open testFS ''archive.txt'' = Inl (notExist ''open'' ''archive.txt'')"
    by (simp add: testFS_def MapFS_def)
  have ne: "errors_Is (notExist ''open'' ''archive.txt'') ErrNotExist"
    by (simp add: notExist_def ErrNotExist_def)
  have i: "(1::nat) < length codec_registry"
    by (simp add: codec_registry_def)
  have before: "\<forall>j<(1::nat). isl (st_open testFS (''archive.txt'' @ fst (codec_registry ! j)))"
    by (simp add: codec_registry_def testFS_def MapFS_def)
  have gz: "isl (st_open testFS ''archive.txt.gz'')"
    by (simp add: testFS_def MapFS_def)
  have hit: "st_open testFS (''archive.txt'' @ fst (codec_registry ! 1))
               = Inr (MapFile ''archive.txt.bz2'' [0x42, 0x63])"
    by (simp add: codec_registry_def testFS_def MapFS_def)
  have lz: "st_open testFS ''archive.txt.lz4'' = Inr (MapFile ''archive.txt.lz4'' [0x04, 0x64])"
    by (simp add: testFS_def MapFS_def)
  have op: "Open framed_codecs testFS ''archive.txt'' init_world
        = (Inr (decompressFile 0 (fileCloser 0)
                 (Some (fileInfoWrapper
                          (fixed_info \<lparr>si_name = ''archive.txt.bz2'', si_size = 2,
                                       si_mode = 0x1A4, si_modtime = 0, si_isdir = False\<rparr>)
                          ''archive.txt''))
                 0),
           \<lparr>handles = [\<lparr>hs_file = MapFile ''archive.txt.bz2'' [0x42, 0x63], hs_closes = 0\<rparr>],
            decoders = [\<lparr>ds_codec = Bzip2, ds_src = 0, ds_closes = 0\<rparr>],
            opened = [''archive.txt'', ''archive.txt.gz'', ''archive.txt.bz2''], store_now = 0\<rparr>)"
    by (simp add: testFS_def MapFS_def notExist_def ErrNotExist_def MapFile_def fixed_info_def
        Open_def fs_Open_def init_world_def adapter_defs
        modifyFileInfo_def TrimSuffix_def HasSuffix_def)
  have dec: "decoded framed_codecs Bzip2 [0x42, 0x63] = Inr [0x63]"
    by (simp add: decoded_def framed_codecs_def unframe_def)
  note th = Open_probe_order [OF lit ne i before hit, of framed_codecs init_world]
  from th have "\<forall>f w'. Open framed_codecs testFS ''archive.txt'' init_world = (Inr f, w') \<longrightarrow>
      File_ReadAll framed_codecs f w'
        = decoded framed_codecs (snd (codec_registry ! 1))
            (rf_data (MapFile ''archive.txt.bz2'' [0x42, 0x63]))"
    by blast
  with op have "File_ReadAll framed_codecs
        (decompressFile 0 (fileCloser 0)
                 (Some (fileInfoWrapper
                          (fixed_info \<lparr>si_name = ''archive.txt.bz2'', si_size = 2,
                                       si_mode = 0x1A4, si_modtime = 0, si_isdir = False\<rparr>)
                          ''archive.txt''))
                 0)
        \<lparr>handles = [\<lparr>hs_file = MapFile ''archive.txt.bz2'' [0x42, 0x63], hs_closes = 0\<rparr>],
         decoders = [\<lparr>ds_codec = Bzip2, ds_src = 0, ds_closes = 0\<rparr>],
         opened = [''archive.txt'', ''archive.txt.gz'', ''archive.txt.bz2''], store_now = 0\<rparr>
       = decoded framed_codecs (snd (codec_registry ! 1))
            (rf_data (MapFile ''archive.txt.bz2'' [0x42, 0x63]))"
    by blast
  with dec have rd: "File_ReadAll framed_codecs
        (decompressFile 0 (fileCloser 0)
                 (Some (fileInfoWrapper
                          (fixed_info \<lparr>si_name = ''archive.txt.bz2'', si_size = 2,
                                       si_mode = 0x1A4, si_modtime = 0, si_isdir = False\<rparr>)
                          ''archive.txt''))
                 0)
        \<lparr>handles = [\<lparr>hs_file = MapFile ''archive.txt.bz2'' [0x42, 0x63], hs_closes = 0\<rparr>],
         decoders = [\<lparr>ds_codec = Bzip2, ds_src = 0, ds_closes = 0\<rparr>],
         opened = [''archive.txt'', ''archive.txt.gz'', ''archive.txt.bz2''], store_now = 0\<rparr>
       = Inr [0x63]"
    by (simp add: codec_registry_def MapFile_def)
  from hit have hit': "st_open testFS ''archive.txt.bz2'' = Inr (MapFile ''archive.txt.bz2'' [0x42, 0x63])"
    by (simp add: codec_registry_def)
  from op have log: "opened (snd (Open framed_codecs testFS ''archive.txt'' init_world))
        = [''archive.txt'', ''archive.txt.gz'', ''archive.txt.bz2'']"
    by simp
  from lit ne i gz hit' lz op log dec rd show ?thesis
    by blast
qed

text \<open>
  Claim C4 (errors of Open). A literal open that fails with an error other than not-exist is
  returned at once and the store is asked for no suffixed name; when the literal name is not
  found and none of the four suffixed names opens, \<open>Open\<close> returns the error of the literal
  open itself, whatever the errors of the suffixed opens were.
\<close>

theorem Open_error_propagation:
  "(st_open st name = Inl err \<and> \<not> errors_Is err ErrNotExist \<longrightarrow>
      Open lib st name w = (Inl err, w\<lparr>opened := opened w @ [name]\<rparr>))
   \<and> (st_open st name = Inl err \<and> errors_Is err ErrNotExist
        \<and> (\<forall>sfx \<in> set (map fst codec_registry). isl (st_open st (name @ sfx))) \<longrightarrow>
      Open lib st name w =
        (Inl err, w\<lparr>opened := opened w @ name # map (\<lambda>s. name @ s) (map fst codec_registry)\<rparr>))"
proof (intro conjI impI)
  assume "st_open st name = Inl err \<and> \<not> errors_Is err ErrNotExist"
  then show "Open lib st name w = (Inl err, w\<lparr>opened := opened w @ [name]\<rparr>)"
    by (simp add: Open_def fs_Open_def)
next
  assume a: "st_open st name = Inl err \<and> errors_Is err ErrNotExist
        \<and> (\<forall>sfx \<in> set (map fst codec_registry). isl (st_open st (name @ sfx)))"
  then obtain e0 e1 e2 e3 where "st_open st (name @ ''.gz'') = Inl e0"
    "st_open st (name @ ''.bz2'') = Inl e1" "st_open st (name @ ''.zst'') = Inl e2"
    "st_open st (name @ ''.lz4'') = Inl e3"
    by (auto simp: isl_def codec_registry_def)
  with a show "Open lib st name w =
        (Inl err, w\<lparr>opened := opened w @ name # map (\<lambda>s. name @ s) (map fst codec_registry)\<rparr>)"
    by (simp add: Open_def fs_Open_def codec_registry_def)
qed

theorem Open_error_propagation_witness:
  "(st_open faultyFS ''normal.txt'' = Inl (PathError ''open'' ''normal.txt'' ErrPermission)
    \<and> \<not> errors_Is (PathError ''open'' ''normal.txt'' ErrPermission) ErrNotExist
    \<and> st_open faultyFS ''normal.txt.gz'' = Inr (MapFile ''normal.txt.gz'' [0x1F, 0x6F])
    \<and> Open framed_codecs faultyFS ''normal.txt'' init_world =
        (Inl (PathError ''open'' ''normal.txt'' ErrPermission),
         \<lparr>handles = [], decoders = [], opened = [''normal.txt''], store_now = 0\<rparr>))
   \<and> (st_open testFS ''missing.txt'' = Inl (notExist ''open'' ''missing.txt'')
    \<and> errors_Is (notExist ''open'' ''missing.txt'') ErrNotExist
    \<and> isl (st_open testFS ''missing.txt.gz'') \<and> isl (st_open testFS ''missing.txt.bz2'')
    \<and> isl (st_open testFS ''missing.txt.zst'') \<and> isl (st_open testFS ''missing.txt.lz4'')
    \<and> st_open testFS ''missing.txt.gz'' = Inl (notExist ''open'' ''missing.txt.gz'')
    \<and> Open framed_codecs testFS ''missing.txt'' init_world =
        (Inl (notExist ''open'' ''missing.txt''),
         \<lparr>handles = [], decoders = [],
          opened = [''missing.txt'', ''missing.txt.gz'', ''missing.txt.bz2'',
                    ''missing.txt.zst'', ''missing.txt.lz4''], store_now = 0\<rparr>))"
proof -
  have a1: "st_open faultyFS ''normal.txt'' = Inl (PathError ''open'' ''normal.txt'' ErrPermission)"
    by (simp add: faultyFS_def)
  have a2: "\<not> errors_Is (PathError ''open'' ''normal.txt'' ErrPermission) ErrNotExist"
    by (simp add: ErrPermission_def ErrNotExist_def)
  have a3: "st_open faultyFS ''normal.txt.gz'' = Inr (MapFile ''normal.txt.gz'' [0x1F, 0x6F])"
    by (simp add: faultyFS_def testFS_def MapFS_def)
  have b1: "st_open testFS ''missing.txt'' = Inl (notExist ''open'' ''missing.txt'')"
    by (simp add: testFS_def MapFS_def)
  have b2: "errors_Is (notExist ''open'' ''missing.txt'') ErrNotExist"
    by (simp add: notExist_def ErrNotExist_def)
  have b3: "\<forall>sfx \<in> set (map fst codec_registry). isl (st_open testFS (''missing.txt'' @ sfx))"
    by (simp add: codec_registry_def testFS_def MapFS_def)
  have b5: "isl (st_open testFS ''missing.txt.gz'')" "isl (st_open testFS ''missing.txt.bz2'')"
    "isl (st_open testFS ''missing.txt.zst'')" "isl (st_open testFS ''missing.txt.lz4'')"
    by (simp_all add: testFS_def MapFS_def)
  have b4: "st_open testFS ''missing.txt.gz'' = Inl (notExist ''open'' ''missing.txt.gz'')"
    by (simp add: testFS_def MapFS_def)
  show ?thesis
    using a1 a2 a3 b1 b2 b3 b4 b5
      Open_error_propagation [of faultyFS "''normal.txt''" "PathError ''open'' ''normal.txt'' ErrPermission" framed_codecs init_world]
      Open_error_propagation [of testFS "''missing.txt''" "notExist ''open'' ''missing.txt''" framed_codecs init_world]
    by (simp add: init_world_def codec_registry_def)
qed

section \<open>The round trip and the metadata of resolved files\<close>

text \<open>
  Claim C1 (round trip), as amended. The claim as stated asks only that the literal name is
  absent and that the name with the codec's suffix holds an encoding of the content. That is
  not enough: \<open>Open\<close> hands the first suffixed name the store opens to that suffix's codec, so
  a \<open>.gz\<close> entry with other bytes shadows a good \<open>.bz2\<close> entry; and the adapter gives up
  when \<open>Stat\<close> on the raw handle fails. Both runs are in the counterexample. With no
  earlier suffix opening and \<open>Stat\<close> succeeding, \<open>Open\<close> succeeds and reading the file to
  its end gives the content, for each of the four codecs.
\<close>

theorem Open_roundtrip:
  assumes "st_open st name = Inl err" and "errors_Is err ErrNotExist"
    and "i < length codec_registry"
    and "\<forall>j<i. isl (st_open st (name @ fst (codec_registry ! j)))"
    and "st_open st (name @ fst (codec_registry ! i)) = Inr rf"
    and "encodes lib (snd (codec_registry ! i)) (rf_data rf) content"
    and "rf_stat rf = Inr info"
  shows "\<exists>f w'. Open lib st name w = (Inr f, w') \<and> File_ReadAll lib f w' = Inr content"
  using assms by (simp add: Open_probe Adapt_roundtrip)

theorem Open_roundtrip_witness:
  "st_open testFS ''file.txt'' = Inl (notExist ''open'' ''file.txt'')
   \<and> errors_Is (notExist ''open'' ''file.txt'') ErrNotExist
   \<and> (2::nat) < length codec_registry
   \<and> isl (st_open testFS ''file.txt.gz'') \<and> isl (st_open testFS ''file.txt.bz2'')
   \<and> st_open testFS (''file.txt'' @ fst (codec_registry ! 2)) = Inr (MapFile ''file.txt.zst'' [0x28, 0x65])
   \<and> encodes framed_codecs (snd (codec_registry ! 2)) (rf_data (MapFile ''file.txt.zst'' [0x28, 0x65])) [0x65]
   \<and> rf_stat (MapFile ''file.txt.zst'' [0x28, 0x65])
        = Inr (fixed_info \<lparr>si_name = ''file.txt.zst'', si_size = 2, si_mode = 0x1A4,
                          si_modtime = 0, si_isdir = False\<rparr>)
   \<and> (\<exists>f w'. Open framed_codecs testFS ''file.txt'' init_world = (Inr f, w')
              \<and> File_ReadAll framed_codecs f w' = Inr [0x65])"
proof -
  have lit: "st_open testFS ''file.txt'' = Inl (notExist ''open'' ''file.txt'')"
    by (simp add: testFS_def MapFS_def)
  have ne: "errors_Is (notExist ''open'' ''file.txt'') ErrNotExist"
    by (simp add: notExist_def ErrNotExist_def)
  have i: "(2::nat) < length codec_registry"
    by (simp add: codec_registry_def)
  have before: "\<forall>j<(2::nat). isl (st_open testFS (''file.txt'' @ fst (codec_registry ! j)))"
    by (simp add: codec_registry_def testFS_def MapFS_def less_Suc_eq numeral_2_eq_2)
  have gz: "isl (st_open testFS ''file.txt.gz'')" "isl (st_open testFS ''file.txt.bz2'')"
    by (simp_all add: testFS_def MapFS_def)
  have hit: "st_open testFS (''file.txt'' @ fst (codec_registry ! 2))
               = Inr (MapFile ''file.txt.zst'' [0x28, 0x65])"
    by (simp add: codec_registry_def testFS_def MapFS_def)
  have enc: "encodes framed_codecs (snd (codec_registry ! 2))
               (rf_data (MapFile ''file.txt.zst'' [0x28, 0x65])) [0x65]"
    by (simp add: codec_registry_def encodes_def constructor_error_def decoded_def
        framed_codecs_def check_magic_def unframe_def MapFile_def)
  have stat: "rf_stat (MapFile ''file.txt.zst'' [0x28, 0x65])
        = Inr (fixed_info \<lparr>si_name = ''file.txt.zst'', si_size = 2, si_mode = 0x1A4,
                          si_modtime = 0, si_isdir = False\<rparr>)"
    by (simp add: MapFile_def)
  show ?thesis
    using lit ne i gz before hit enc stat
      Open_roundtrip [OF lit ne i before hit enc stat, of init_world]
    by simp
qed

theorem Open_roundtrip_counterexample:
  "st_open testFS ''collide.txt'' = Inl (notExist ''open'' ''collide.txt'')
   \<and> errors_Is (notExist ''open'' ''collide.txt'') ErrNotExist
   \<and> st_open testFS (''collide.txt'' @ ''.bz2'') = Inr (MapFile ''collide.txt.bz2'' [0x42, 0x66])
   \<and> encodes framed_codecs Bzip2 (rf_data (MapFile ''collide.txt.bz2'' [0x42, 0x66])) [0x66]
   \<and> fst (Open framed_codecs testFS ''collide.txt'' init_world) = Inl ErrHeader
   \<and> st_open testFS ''nostat.txt'' = Inl (notExist ''open'' ''nostat.txt'')
   \<and> errors_Is (notExist ''open'' ''nostat.txt'') ErrNotExist
   \<and> st_open testFS (''nostat.txt'' @ ''.gz'')
        = Inr ((MapFile ''nostat.txt.gz'' [0x1F, 0x67])\<lparr>rf_stat := Inl ErrPermission\<rparr>)
   \<and> encodes framed_codecs Gzip
        (rf_data ((MapFile ''nostat.txt.gz'' [0x1F, 0x67])\<lparr>rf_stat := Inl ErrPermission\<rparr>)) [0x67]
   \<and> fst (Open framed_codecs testFS ''nostat.txt'' init_world) = Inl ErrPermission"
  by (simp add: testFS_def MapFS_def notExist_def ErrNotExist_def MapFile_def encodes_def
      constructor_error_def decoded_def framed_codecs_def unframe_def check_magic_def
      Open_def fs_Open_def init_world_def adapter_defs)

text \<open>
  Claim C8 (metadata frame). For a compressed entry that \<open>Open\<close> resolved, \<open>Stat\<close> on the
  returned file gives the metadata of the compressed entry in every field (size, mode,
  modification time, directory flag) except the name, which is the raw name with the suffix
  of the codec trimmed. The size is that of the compressed entry. The fields are compared
  at one and the same state of the store, whichever it is.
\<close>

theorem Open_metadata_frame:
  assumes "st_open st name = Inl err" and "errors_Is err ErrNotExist"
    and "i < length codec_registry"
    and "\<forall>j<i. isl (st_open st (name @ fst (codec_registry ! j)))"
    and "st_open st (name @ fst (codec_registry ! i)) = Inr rf"
    and "Open lib st name w = (Inr f, w')"
  shows "\<exists>info fi. rf_stat rf = Inr info \<and> File_Stat f w' = Inr fi
           \<and> store_now w' = store_now w
           \<and> Name fi (store_now w')
               = TrimSuffix (Name info (store_now w')) (fst (codec_registry ! i))
           \<and> (\<forall>s. Size fi s = Size info s \<and> Mode fi s = Mode info s
                  \<and> ModTime fi s = ModTime info s \<and> IsDir fi s = IsDir info s)"
proof -
  let ?w1 = "opened_raw w (name # map (\<lambda>s. name @ s) (take (Suc i) (map fst codec_registry))) rf"
  have ad: "Adapt lib (snd (codec_registry ! i)) (length (handles w)) ?w1 = (Inr f, w')"
    using assms by (simp add: Open_probe)
  with registry_nth_mem [OF assms(3)]
  obtain info where info: "rf_stat rf = Inr info"
    and st: "\<forall>w''. File_Stat f w''
               = Inr (fileInfoWrapper info
                        (TrimSuffix (Name info (store_now w)) (fst (codec_registry ! i))))"
    using Adapt_info by blast
  from Adapt_success [OF ad] have now: "store_now w' = store_now w"
    by (simp add: opened_raw_def)
  from st have "File_Stat f w'
      = Inr (fileInfoWrapper info
               (TrimSuffix (Name info (store_now w)) (fst (codec_registry ! i))))"
    by simp
  with info now show ?thesis
    by simp
qed

theorem Open_metadata_frame_witness:
  "st_open testFS ''compressed.txt'' = Inl (notExist ''open'' ''compressed.txt'')
   \<and> errors_Is (notExist ''open'' ''compressed.txt'') ErrNotExist
   \<and> (0::nat) < length codec_registry
   \<and> st_open testFS (''compressed.txt'' @ fst (codec_registry ! 0))
        = Inr (MapFile ''compressed.txt.gz'' [0x1F, 0x61, 0x62])
   \<and> Open framed_codecs testFS ''compressed.txt'' init_world
        = (Inr (decompressFile 0 (multiCloser (gzipCloser 0) (fileCloser 0))
                 (Some (fileInfoWrapper
                          (fixed_info \<lparr>si_name = ''compressed.txt.gz'', si_size = 3,
                                      si_mode = 0x1A4, si_modtime = 0, si_isdir = False\<rparr>)
                          ''compressed.txt''))
                 0),
           \<lparr>handles = [\<lparr>hs_file = MapFile ''compressed.txt.gz'' [0x1F, 0x61, 0x62],
                        hs_closes = 0\<rparr>],
            decoders = [\<lparr>ds_codec = Gzip, ds_src = 0, ds_closes = 0\<rparr>],
            opened = [''compressed.txt'', ''compressed.txt.gz''], store_now = 0\<rparr>)
   \<and> (\<exists>info fi. rf_stat (MapFile ''compressed.txt.gz'' [0x1F, 0x61, 0x62]) = Inr info
         \<and> File_Stat (decompressFile 0 (multiCloser (gzipCloser 0) (fileCloser 0))
                 (Some (fileInfoWrapper
                          (fixed_info \<lparr>si_name = ''compressed.txt.gz'', si_size = 3,
                                      si_mode = 0x1A4, si_modtime = 0, si_isdir = False\<rparr>)
                          ''compressed.txt''))
                 0)
             \<lparr>handles = [\<lparr>hs_file = MapFile ''compressed.txt.gz'' [0x1F, 0x61, 0x62],
                        hs_closes = 0\<rparr>],
              decoders = [\<lparr>ds_codec = Gzip, ds_src = 0, ds_closes = 0\<rparr>],
              opened = [''compressed.txt'', ''compressed.txt.gz''], store_now = 0\<rparr> = Inr fi
         \<and> Name fi 0 = ''compressed.txt'' \<and> Size fi 0 = 3 \<and> Size info 0 = 3
         \<and> Mode fi 0 = Mode info 0 \<and> ModTime fi 0 = ModTime info 0
         \<and> IsDir fi 0 = IsDir info 0)"
proof -
  have lit: "st_open testFS ''compressed.txt'' = Inl (notExist ''open'' ''compressed.txt'')"
    by (simp add: testFS_def MapFS_def)
  have ne: "errors_Is (notExist ''open'' ''compressed.txt'') ErrNotExist"
    by (simp add: notExist_def ErrNotExist_def)
  have i: "(0::nat) < length codec_registry"
    by (simp add: codec_registry_def)
  have before: "\<forall>j<(0::nat). isl (st_open testFS (''compressed.txt'' @ fst (codec_registry ! j)))"
    by simp
  have hit: "st_open testFS (''compressed.txt'' @ fst (codec_registry ! 0))
        = Inr (MapFile ''compressed.txt.gz'' [0x1F, 0x61, 0x62])"
    by (simp add: codec_registry_def testFS_def MapFS_def)
  have op: "Open framed_codecs testFS ''compressed.txt'' init_world
        = (Inr (decompressFile 0 (multiCloser (gzipCloser 0) (fileCloser 0))
                 (Some (fileInfoWrapper
                          (fixed_info \<lparr>si_name = ''compressed.txt.gz'', si_size = 3,
                                      si_mode = 0x1A4, si_modtime = 0, si_isdir = False\<rparr>)
                          ''compressed.txt''))
                 0),
           \<lparr>handles = [\<lparr>hs_file = MapFile ''compressed.txt.gz'' [0x1F, 0x61, 0x62],
                        hs_closes = 0\<rparr>],
            decoders = [\<lparr>ds_codec = Gzip, ds_src = 0, ds_closes = 0\<rparr>],
            opened = [''compressed.txt'', ''compressed.txt.gz''], store_now = 0\<rparr>)"
    by (simp add: testFS_def MapFS_def notExist_def ErrNotExist_def MapFile_def
        framed_codecs_def check_magic_def Open_def fs_Open_def init_world_def adapter_defs
        modifyFileInfo_def TrimSuffix_def HasSuffix_def)
  show ?thesis
    using lit ne i before hit op Open_metadata_frame [OF lit ne i before hit op]
    by (simp add: codec_registry_def TrimSuffix_def HasSuffix_def MapFile_def)
qed

text \<open>
  Claim C9 (no handle leak when the adapter fails). After a suffixed open succeeded, \<open>Open\<close>
  fails exactly when the decoder's constructor rejects the bytes or \<open>Stat\<close> on the raw
  handle fails, and then the one raw handle this call opened has been closed exactly once
  when the error comes back.
\<close>

theorem Open_failure_closes_raw:
  assumes "st_open st name = Inl err" and "errors_Is err ErrNotExist"
    and "i < length codec_registry"
    and "\<forall>j<i. isl (st_open st (name @ fst (codec_registry ! j)))"
    and "st_open st (name @ fst (codec_registry ! i)) = Inr rf"
  shows "isl (fst (Open lib st name w))
           = (constructor_error lib (snd (codec_registry ! i)) (rf_data rf) \<noteq> None
              \<or> isl (rf_stat rf))
       \<and> (isl (fst (Open lib st name w)) \<longrightarrow>
            handles (snd (Open lib st name w))
              = handles w @ [\<lparr>hs_file = rf, hs_closes = 1\<rparr>])"
proof -
  let ?w1 = "opened_raw w (name # map (\<lambda>s. name @ s) (take (Suc i) (map fst codec_registry))) rf"
  let ?r = "Adapt lib (snd (codec_registry ! i)) (length (handles w)) ?w1"
  have eq: "Open lib st name w = ?r"
    using assms by (simp add: Open_probe)
  have iff: "isl (fst ?r) = (constructor_error lib (snd (codec_registry ! i)) (rf_data rf) \<noteq> None
              \<or> isl (rf_stat rf))"
    by (rule Adapt_failure)
  have cl: "handles (snd ?r) = handles w @ [\<lparr>hs_file = rf, hs_closes = 1\<rparr>]" if "isl (fst ?r)"
  proof -
    from that obtain e w' where "?r = (Inl e, w')"
      by (cases ?r) (auto simp: isl_def)
    then show ?thesis
      using Adapt_failure_closes by fastforce
  qed
  from eq iff cl show ?thesis by simp
qed

theorem Open_failure_closes_raw_witness:
  "st_open testFS ''broken.txt'' = Inl (notExist ''open'' ''broken.txt'')
   \<and> errors_Is (notExist ''open'' ''broken.txt'') ErrNotExist
   \<and> (0::nat) < length codec_registry
   \<and> st_open testFS (''broken.txt'' @ fst (codec_registry ! 0))
        = Inr (MapFile ''broken.txt.gz'' [0x00])
   \<and> constructor_error framed_codecs Gzip [0x00] = Some ErrHeader
   \<and> fst (Open framed_codecs testFS ''broken.txt'' init_world) = Inl ErrHeader
   \<and> handles (snd (Open framed_codecs testFS ''broken.txt'' init_world))
        = [\<lparr>hs_file = MapFile ''broken.txt.gz'' [0x00], hs_closes = 1\<rparr>]
   \<and> st_open testFS ''nostat.txt'' = Inl (notExist ''open'' ''nostat.txt'')
   \<and> errors_Is (notExist ''open'' ''nostat.txt'') ErrNotExist
   \<and> st_open testFS (''nostat.txt'' @ fst (codec_registry ! 0))
        = Inr ((MapFile ''nostat.txt.gz'' [0x1F, 0x67])\<lparr>rf_stat := Inl ErrPermission\<rparr>)
   \<and> fst (Open framed_codecs testFS ''nostat.txt'' init_world) = Inl ErrPermission
   \<and> handles (snd (Open framed_codecs testFS ''nostat.txt'' init_world))
        = [\<lparr>hs_file = (MapFile ''nostat.txt.gz'' [0x1F, 0x67])\<lparr>rf_stat := Inl ErrPermission\<rparr>,
            hs_closes = 1\<rparr>]"
proof -
  have ne: "errors_Is (notExist ''open'' p) ErrNotExist" for p
    by (simp add: notExist_def ErrNotExist_def)
  have i: "(0::nat) < length codec_registry"
    by (simp add: codec_registry_def)
  have lit1: "st_open testFS ''broken.txt'' = Inl (notExist ''open'' ''broken.txt'')"
    by (simp add: testFS_def MapFS_def)
  have before1: "\<forall>j<(0::nat). isl (st_open testFS (''broken.txt'' @ fst (codec_registry ! j)))"
    by simp
  have hit1: "st_open testFS (''broken.txt'' @ fst (codec_registry ! 0))
        = Inr (MapFile ''broken.txt.gz'' [0x00])"
    by (simp add: codec_registry_def testFS_def MapFS_def)
  have lit2: "st_open testFS ''nostat.txt'' = Inl (notExist ''open'' ''nostat.txt'')"
    by (simp add: testFS_def MapFS_def)
  have before2: "\<forall>j<(0::nat). isl (st_open testFS (''nostat.txt'' @ fst (codec_registry ! j)))"
    by simp
  have hit2: "st_open testFS (''nostat.txt'' @ fst (codec_registry ! 0))
        = Inr ((MapFile ''nostat.txt.gz'' [0x1F, 0x67])\<lparr>rf_stat := Inl ErrPermission\<rparr>)"
    by (simp add: codec_registry_def testFS_def MapFS_def)
  have ce: "constructor_error framed_codecs Gzip [0x00] = Some ErrHeader"
    by (simp add: constructor_error_def framed_codecs_def check_magic_def)
  have r1: "fst (Open framed_codecs testFS ''broken.txt'' init_world) = Inl ErrHeader"
    by (simp add: testFS_def MapFS_def notExist_def ErrNotExist_def MapFile_def
        framed_codecs_def check_magic_def Open_def fs_Open_def init_world_def adapter_defs)
  have r2: "fst (Open framed_codecs testFS ''nostat.txt'' init_world) = Inl ErrPermission"
    by (simp add: testFS_def MapFS_def notExist_def ErrNotExist_def MapFile_def
        framed_codecs_def check_magic_def Open_def fs_Open_def init_world_def adapter_defs)
  show ?thesis
    using ne i lit1 before1 hit1 lit2 before2 hit2 ce r1 r2
      Open_failure_closes_raw [OF lit1 ne i before1 hit1, of framed_codecs init_world]
      Open_failure_closes_raw [OF lit2 ne i before2 hit2, of framed_codecs init_world]
    by (simp add: init_world_def)
qed

text \<open>
  Claim C10 (metadata captured at open time), as amended. The claim as stated says that
  every later \<open>Stat\<close> returns the same metadata that was captured when the file was
  opened, also when the store's answers change afterwards. What is captured is the
  \<open>FileInfo\<close> value that \<open>Stat\<close> on the raw handle returned, wrapped under the trimmed
  name; the wrapper passes \<open>Size\<close>, \<open>Mode\<close>, \<open>ModTime\<close> and \<open>IsDir\<close> on to that value
  whenever it is asked, so with a store whose \<open>FileInfo\<close> is live the size and the
  modification time that \<open>Stat\<close> reports change with the store (the counterexample). What
  holds: the raw \<open>Stat\<close> is called once, when the file is opened; every later \<open>Stat\<close> on
  the file succeeds in every world, also one where \<open>Stat\<close> on the raw handle fails, and
  returns one and the same wrapper; its name is the raw name at the time of opening with the
  suffix trimmed, and stays that; its other fields are, at every state of the store, those
  of the wrapped value at that state.
\<close>

theorem Stat_snapshot:
  assumes "st_open st name = Inl err" and "errors_Is err ErrNotExist"
    and "i < length codec_registry"
    and "\<forall>j<i. isl (st_open st (name @ fst (codec_registry ! j)))"
    and "st_open st (name @ fst (codec_registry ! i)) = Inr rf"
    and "Open lib st name w = (Inr f, w')"
  shows "\<exists>info fi. rf_stat rf = Inr info
           \<and> (\<forall>w''. File_Stat f w'' = Inr fi)
           \<and> (\<forall>s. Name fi s
                    = TrimSuffix (Name info (store_now w)) (fst (codec_registry ! i)))
           \<and> (\<forall>s. Size fi s = Size info s \<and> Mode fi s = Mode info s
                  \<and> ModTime fi s = ModTime info s \<and> IsDir fi s = IsDir info s)"
proof -
  let ?w1 = "opened_raw w (name # map (\<lambda>s. name @ s) (take (Suc i) (map fst codec_registry))) rf"
  have "Adapt lib (snd (codec_registry ! i)) (length (handles w)) ?w1 = (Inr f, w')"
    using assms by (simp add: Open_probe)
  with registry_nth_mem [OF assms(3)]
  obtain info where info: "rf_stat rf = Inr info"
    and st: "\<forall>w''. File_Stat f w''
               = Inr (fileInfoWrapper info
                        (TrimSuffix (Name info (store_now w)) (fst (codec_registry ! i))))"
    using Adapt_info by blast
  let ?fi = "fileInfoWrapper info
               (TrimSuffix (Name info (store_now w)) (fst (codec_registry ! i)))"
  have "rf_stat rf = Inr info \<and> (\<forall>w''. File_Stat f w'' = Inr ?fi)
      \<and> (\<forall>s. Name ?fi s = TrimSuffix (Name info (store_now w)) (fst (codec_registry ! i)))
      \<and> (\<forall>s. Size ?fi s = Size info s \<and> Mode ?fi s = Mode info s
             \<and> ModTime ?fi s = ModTime info s \<and> IsDir ?fi s = IsDir info s)"
    using info st by simp
  then show ?thesis by blast
qed

theorem Stat_snapshot_witness:
  "st_open testFS ''archive.txt'' = Inl (notExist ''open'' ''archive.txt'')
   \<and> errors_Is (notExist ''open'' ''archive.txt'') ErrNotExist
   \<and> (1::nat) < length codec_registry
   \<and> isl (st_open testFS ''archive.txt.gz'')
   \<and> st_open testFS (''archive.txt'' @ fst (codec_registry ! 1))
        = Inr (MapFile ''archive.txt.bz2'' [0x42, 0x63])
   \<and> Open framed_codecs testFS ''archive.txt'' init_world
        = (Inr (decompressFile 0 (fileCloser 0)
                 (Some (fileInfoWrapper
                          (fixed_info \<lparr>si_name = ''archive.txt.bz2'', si_size = 2,
                                       si_mode = 0x1A4, si_modtime = 0, si_isdir = False\<rparr>)
                          ''archive.txt''))
                 0),
           \<lparr>handles = [\<lparr>hs_file = MapFile ''archive.txt.bz2'' [0x42, 0x63], hs_closes = 0\<rparr>],
            decoders = [\<lparr>ds_codec = Bzip2, ds_src = 0, ds_closes = 0\<rparr>],
            opened = [''archive.txt'', ''archive.txt.gz'', ''archive.txt.bz2''], store_now = 0\<rparr>)
   \<and> file_Stat 0
        \<lparr>handles = [\<lparr>hs_file = (MapFile ''archive.txt.bz2'' [])\<lparr>rf_stat := Inl ErrPermission\<rparr>,
                     hs_closes = 1\<rparr>],
         decoders = [], opened = [], store_now = 7\<rparr> = Inl ErrPermission
   \<and> File_Stat (decompressFile 0 (fileCloser 0)
                 (Some (fileInfoWrapper
                          (fixed_info \<lparr>si_name = ''archive.txt.bz2'', si_size = 2,
                                       si_mode = 0x1A4, si_modtime = 0, si_isdir = False\<rparr>)
                          ''archive.txt''))
                 0)
        \<lparr>handles = [\<lparr>hs_file = (MapFile ''archive.txt.bz2'' [])\<lparr>rf_stat := Inl ErrPermission\<rparr>,
                     hs_closes = 1\<rparr>],
         decoders = [], opened = [], store_now = 7\<rparr>
       = Inr (fileInfoWrapper
                (fixed_info \<lparr>si_name = ''archive.txt.bz2'', si_size = 2,
                             si_mode = 0x1A4, si_modtime = 0, si_isdir = False\<rparr>)
                ''archive.txt'')
   \<and> Name (fileInfoWrapper
                (fixed_info \<lparr>si_name = ''archive.txt.bz2'', si_size = 2,
                             si_mode = 0x1A4, si_modtime = 0, si_isdir = False\<rparr>)
                ''archive.txt'') 7 = ''archive.txt''"
proof -
  have lit: "st_open testFS ''archive.txt'' = Inl (notExist ''open'' ''archive.txt'')"
    by (simp add: testFS_def MapFS_def)
  have ne: "errors_Is (notExist ''open'' ''archive.txt'') ErrNotExist"
    by (simp add: notExist_def ErrNotExist_def)
  have i: "(1::nat) < length codec_registry"
    by (simp add: codec_registry_def)
  have before: "\<forall>j<(1::nat). isl (st_open testFS (''archive.txt'' @ fst (codec_registry ! j)))"
    by (simp add: codec_registry_def testFS_def MapFS_def)
  have gz: "isl (st_open testFS ''archive.txt.gz'')"
    by (simp add: testFS_def MapFS_def)
  have hit: "st_open testFS (''archive.txt'' @ fst (codec_registry ! 1))
        = Inr (MapFile ''archive.txt.bz2'' [0x42, 0x63])"
    by (simp add: codec_registry_def testFS_def MapFS_def)
  have op: "Open framed_codecs testFS ''archive.txt'' init_world
        = (Inr (decompressFile 0 (fileCloser 0)
                 (Some (fileInfoWrapper
                          (fixed_info \<lparr>si_name = ''archive.txt.bz2'', si_size = 2,
                                       si_mode = 0x1A4, si_modtime = 0, si_isdir = False\<rparr>)
                          ''archive.txt''))
                 0),
           \<lparr>handles = [\<lparr>hs_file = MapFile ''archive.txt.bz2'' [0x42, 0x63], hs_closes = 0\<rparr>],
            decoders = [\<lparr>ds_codec = Bzip2, ds_src = 0, ds_closes = 0\<rparr>],
            opened = [''archive.txt'', ''archive.txt.gz'', ''archive.txt.bz2''], store_now = 0\<rparr>)"
    by (simp add: testFS_def MapFS_def notExist_def ErrNotExist_def MapFile_def
        Open_def fs_Open_def init_world_def adapter_defs
        modifyFileInfo_def TrimSuffix_def HasSuffix_def)
  show ?thesis
    using lit ne i gz before hit op Stat_snapshot [OF lit ne i before hit op]
    by (simp add: file_Stat_def MapFile_def codec_registry_def TrimSuffix_def HasSuffix_def)
qed

theorem Stat_snapshot_counterexample:
  "st_open testFS ''grow.txt'' = Inl (notExist ''open'' ''grow.txt'')
   \<and> errors_Is (notExist ''open'' ''grow.txt'') ErrNotExist
   \<and> Open framed_codecs testFS ''grow.txt'' init_world
        = (Inr (decompressFile 0 (multiCloser (gzipCloser 0) (fileCloser 0))
                 (Some (fileInfoWrapper (growing_info ''grow.txt.gz'' 2) ''grow.txt''))
                 0),
           \<lparr>handles = [\<lparr>hs_file = (MapFile ''grow.txt.gz'' [0x1F, 0x69])
                                     \<lparr>rf_stat := Inr (growing_info ''grow.txt.gz'' 2)\<rparr>,
                        hs_closes = 0\<rparr>],
            decoders = [\<lparr>ds_codec = Gzip, ds_src = 0, ds_closes = 0\<rparr>],
            opened = [''grow.txt'', ''grow.txt.gz''], store_now = 0\<rparr>)
   \<and> File_Stat (decompressFile 0 (multiCloser (gzipCloser 0) (fileCloser 0))
                 (Some (fileInfoWrapper (growing_info ''grow.txt.gz'' 2) ''grow.txt''))
                 0)
        \<lparr>handles = [\<lparr>hs_file = (MapFile ''grow.txt.gz'' [0x1F, 0x69])
                                  \<lparr>rf_stat := Inr (growing_info ''grow.txt.gz'' 2)\<rparr>,
                     hs_closes = 0\<rparr>],
         decoders = [\<lparr>ds_codec = Gzip, ds_src = 0, ds_closes = 0\<rparr>],
         opened = [''grow.txt'', ''grow.txt.gz''], store_now = 5\<rparr>
       = Inr (fileInfoWrapper (growing_info ''grow.txt.gz'' 2) ''grow.txt'')
   \<and> Size (fileInfoWrapper (growing_info ''grow.txt.gz'' 2) ''grow.txt'') 0 = 2
   \<and> Size (fileInfoWrapper (growing_info ''grow.txt.gz'' 2) ''grow.txt'') 5 = 7
   \<and> ModTime (fileInfoWrapper (growing_info ''grow.txt.gz'' 2) ''grow.txt'') 0 = 0
   \<and> ModTime (fileInfoWrapper (growing_info ''grow.txt.gz'' 2) ''grow.txt'') 5 = 5"
  by (simp add: testFS_def MapFS_def notExist_def ErrNotExist_def MapFile_def
      framed_codecs_def check_magic_def Open_def fs_Open_def init_world_def adapter_defs
      modifyFileInfo_def TrimSuffix_def HasSuffix_def)

section \<open>Properties of Close\<close>

text \<open>
  What \<open>Close\<close> on a resolved file does. On the gzip path the closer is
  \<open>multiCloser{gzReader, f}\<close>: both the gzip reader and the raw handle are closed once, the
  raw handle also when the reader's close failed, and the reader's error is the one
  reported when there is one. On the other three paths the closer is the raw handle alone:
  the raw handle is closed once and the decoder is left as it is.
\<close>

lemma Close_gzip_composite:
  assumes "st_open st name = Inl err" and "errors_Is err ErrNotExist"
    and "st_open st (name @ ''.gz'') = Inr rf"
    and "Open lib st name w = (Inr f, w')"
  shows "fst (File_Close lib f w')
           = (if gzip_Close lib (rf_data rf) \<noteq> None then gzip_Close lib (rf_data rf)
              else rf_close rf)
       \<and> handles (snd (File_Close lib f w')) = handles w @ [\<lparr>hs_file = rf, hs_closes = 1\<rparr>]
       \<and> decoders (snd (File_Close lib f w'))
           = decoders w @ [\<lparr>ds_codec = Gzip, ds_src = length (handles w), ds_closes = 1\<rparr>]"
  using assms
  by (auto simp: Open_def fs_Open_def adapter_defs gzip_Reader_Close_def nth_append
      split: option.splits sum.splits)

lemma Close_raw_only:
  assumes "c \<in> {Bzip2, Zstd, Lz4}"
    and "Adapt lib c (length (handles w)) (opened_raw w paths rf) = (Inr f, w')"
  shows "File_Close lib f w'
           = (rf_close rf,
              w'\<lparr>handles := handles w @ [\<lparr>hs_file = rf, hs_closes = 1\<rparr>]\<rparr>)
       \<and> decoders w' = decoders w @ [\<lparr>ds_codec = c, ds_src = length (handles w), ds_closes = 0\<rparr>]"
  using assms
  by (auto simp: adapter_defs split: option.splits sum.splits)

text \<open>
  Claim C5 (composite close), at the input where the code departs from it. The store holds
  \<open>file.txt.zst\<close> only; \<open>Open\<close> of \<open>file.txt\<close> makes a zstd decoder over the raw handle, and
  \<open>newZstdFile\<close> stores the raw handle alone as the closer. \<open>Close\<close> on the returned file
  closes the raw handle once and returns; the zstd decoder, which has a \<open>Close\<close> of its own
  to release what it holds, has been released zero times.
\<close>

theorem Close_leaves_zstd_decoder:
  "Open framed_codecs testFS ''file.txt'' init_world
     = (Inr (decompressFile 0 (fileCloser 0)
               (Some (fileInfoWrapper
                        (fixed_info \<lparr>si_name = ''file.txt.zst'', si_size = 2,
                                    si_mode = 0x1A4, si_modtime = 0, si_isdir = False\<rparr>)
                        ''file.txt''))
               0),
        \<lparr>handles = [\<lparr>hs_file = MapFile ''file.txt.zst'' [0x28, 0x65], hs_closes = 0\<rparr>],
         decoders = [\<lparr>ds_codec = Zstd, ds_src = 0, ds_closes = 0\<rparr>],
         opened = [''file.txt'', ''file.txt.gz'', ''file.txt.bz2'', ''file.txt.zst''], store_now = 0\<rparr>)
   \<and> File_Close framed_codecs
        (decompressFile 0 (fileCloser 0)
               (Some (fileInfoWrapper
                        (fixed_info \<lparr>si_name = ''file.txt.zst'', si_size = 2,
                                    si_mode = 0x1A4, si_modtime = 0, si_isdir = False\<rparr>)
                        ''file.txt''))
               0)
        \<lparr>handles = [\<lparr>hs_file = MapFile ''file.txt.zst'' [0x28, 0x65], hs_closes = 0\<rparr>],
         decoders = [\<lparr>ds_codec = Zstd, ds_src = 0, ds_closes = 0\<rparr>],
         opened = [''file.txt'', ''file.txt.gz'', ''file.txt.bz2'', ''file.txt.zst''], store_now = 0\<rparr>
     = (None,
        \<lparr>handles = [\<lparr>hs_file = MapFile ''file.txt.zst'' [0x28, 0x65], hs_closes = 1\<rparr>],
         decoders = [\<lparr>ds_codec = Zstd, ds_src = 0, ds_closes = 0\<rparr>],
         opened = [''file.txt'', ''file.txt.gz'', ''file.txt.bz2'', ''file.txt.zst''], store_now = 0\<rparr>)"
  by (simp add: testFS_def MapFS_def notExist_def ErrNotExist_def MapFile_def
      framed_codecs_def check_magic_def Open_def fs_Open_def init_world_def adapter_defs
      modifyFileInfo_def TrimSuffix_def HasSuffix_def)

section \<open>Properties of ReadDir\<close>

lemma HasSuffix_iff: "HasSuffix s suffix \<longleftrightarrow> (\<exists>p. s = p @ suffix)"
proof
  assume "HasSuffix s suffix"
  then have "s = take (length s - length suffix) s @ suffix"
    by (metis HasSuffix_def append_take_drop_id)
  then show "\<exists>p. s = p @ suffix" ..
next
  assume "\<exists>p. s = p @ suffix"
  then show "HasSuffix s suffix" by (auto simp: HasSuffix_def)
qed

lemma TrimSuffix_append: "TrimSuffix (p @ suffix) suffix = p"
  by (simp add: TrimSuffix_def HasSuffix_def)

lemma HasSuffix_last: "HasSuffix s suffix \<Longrightarrow> suffix \<noteq> [] \<Longrightarrow> last s = last suffix"
  by (auto simp: HasSuffix_iff)

lemma TrimSuffix_other:
  "suffix \<noteq> [] \<Longrightarrow> s \<noteq> [] \<Longrightarrow> last s \<noteq> last suffix \<Longrightarrow> TrimSuffix (p @ s) suffix = p @ s"
  using HasSuffix_last [of "p @ s" suffix] by (auto simp: TrimSuffix_def)

lemma TrimSuffix_none: "\<not> HasSuffix s suffix \<Longrightarrow> TrimSuffix s suffix = s"
  by (simp add: TrimSuffix_def)

text \<open>
  A name that carries one recognised suffix over a base with none of them is listed under
  the base; the rewritten entry answers with the directory flag and the mode of the
  metadata that was fetched, and \<open>Info\<close> on it returns that metadata (under the old name).
\<close>

lemma trimCompressionSuffixes_single:
  assumes "sfx \<in> set (map fst codec_registry)" and "\<not> hasCompressionSuffix base"
  shows "trimCompressionSuffixes (base @ sfx) = base"
proof -
  from assms(2) have n: "TrimSuffix base ''.gz'' = base" "TrimSuffix base ''.bz2'' = base"
    "TrimSuffix base ''.zst'' = base" "TrimSuffix base ''.lz4'' = base"
    by (simp_all add: hasCompressionSuffix_def TrimSuffix_none)
  from assms(1) have "sfx = ''.gz'' \<or> sfx = ''.bz2'' \<or> sfx = ''.zst'' \<or> sfx = ''.lz4''"
    by (auto simp: codec_registry_def)
  then show ?thesis
    by (elim disjE) (simp_all add: trimCompressionSuffixes_def TrimSuffix_append TrimSuffix_other n)
qed

lemma rewrite_entry_compressed:
  assumes "\<not> entry_IsDir e s" and "hasCompressionSuffix (entry_Name e)"
    and "entry_Info e = Inr info"
  shows "rewrite_entry s e = WrapperEntry info (trimCompressionSuffixes (entry_Name e))
       \<and> entry_Name (rewrite_entry s e) = trimCompressionSuffixes (entry_Name e)
       \<and> entry_IsDir (rewrite_entry s e) s = IsDir info s
       \<and> entry_Type (rewrite_entry s e) s = Mode info s
       \<and> entry_Info (rewrite_entry s e) = Inr info"
  using assms by (simp add: rewrite_entry_def)

lemma rewrite_entry_passthrough:
  "entry_IsDir e s \<or> \<not> hasCompressionSuffix (entry_Name e) \<Longrightarrow> rewrite_entry s e = e"
  by (auto simp: rewrite_entry_def)

lemma ReadDir_loop_map:
  assumes "\<forall>e\<in>set entries. \<not> entry_IsDir e s \<longrightarrow> \<not> isl (entry_Info e)"
  shows "ReadDir_loop s entries = Inr (map (rewrite_entry s) entries)"
  using assms
proof (induction entries)
  case Nil
  then show ?case by simp
next
  case (Cons e es)
  then have rest: "ReadDir_loop s es = Inr (map (rewrite_entry s) es)" by simp
  show ?case
  proof (cases "entry_IsDir e s")
    case True
    with rest show ?thesis by (simp add: rewrite_entry_def)
  next
    case False
    with Cons.prems obtain info where "entry_Info e = Inr info"
      by (cases "entry_Info e") auto
    with False rest show ?thesis by (simp add: rewrite_entry_def Let_def)
  qed
qed

lemma ReadDir_loop_error:
  assumes "ReadDir_loop s entries = Inl err"
  shows "\<exists>e\<in>set entries. \<not> entry_IsDir e s \<and> entry_Info e = Inl err"
  using assms
  by (induction entries) (auto simp: Let_def split: if_splits sum.splits)

text \<open>
  Claim C6 (rewriting of compressed entries), at the input where the code departs from it.
  The listing holds one file entry named \<open>a.lz4.gz\<close>. Its name ends with \<open>.gz\<close>, and with
  that suffix stripped it is \<open>a.lz4\<close>. The four \<open>TrimSuffix\<close> calls run in sequence, so the
  \<open>.lz4\<close> that the first call uncovers is trimmed too and the entry is listed as \<open>a\<close>.
  \<open>Open\<close> does not find the entry under \<open>a\<close>; it finds it under \<open>a.lz4\<close>, and reports that
  name.
\<close>

theorem ReadDir_stacked_suffixes:
  "st_readdir testFS ''stacked'' =
     Inr [StoreEntry \<lparr>se_name = ''a.lz4.gz'', se_isdir = False, se_type = 0,
                      se_info = rf_stat (MapFile ''a.lz4.gz'' [0x1F, 0x04, 0x68])\<rparr>]
   \<and> HasSuffix ''a.lz4.gz'' ''.gz''
   \<and> TrimSuffix ''a.lz4.gz'' ''.gz'' = ''a.lz4''
   \<and> ReadDir testFS ''stacked'' init_world =
     Inr [WrapperEntry (fixed_info \<lparr>si_name = ''a.lz4.gz'', si_size = 3,
                                   si_mode = 0x1A4, si_modtime = 0, si_isdir = False\<rparr>)
                       ''a'']
   \<and> fst (Open framed_codecs testFS ''stacked/a'' init_world)
       = Inl (notExist ''open'' ''stacked/a'')
   \<and> fst (Open framed_codecs testFS ''stacked/a.lz4'' init_world)
       = Inr (decompressFile 0 (multiCloser (gzipCloser 0) (fileCloser 0))
                (Some (fileInfoWrapper
                         (fixed_info \<lparr>si_name = ''a.lz4.gz'', si_size = 3,
                                     si_mode = 0x1A4, si_modtime = 0, si_isdir = False\<rparr>)
                         ''a.lz4''))
                0)"
  by (simp add: testFS_def MapFS_def ReadDir_def hasCompressionSuffix_def
      trimCompressionSuffixes_def HasSuffix_def TrimSuffix_def MapFile_def
      notExist_def ErrNotExist_def framed_codecs_def check_magic_def Open_def fs_Open_def
      init_world_def adapter_defs modifyFileInfo_def)

text \<open>
  Claim C7 (pass-through and totality of the listing), as amended. \<open>ReadDir\<close> calls \<open>Info\<close>
  on every entry that is not a directory, before it looks at the name, and returns the
  first error of such a call: a listing of the store with one plain file whose metadata
  cannot be fetched makes \<open>ReadDir\<close> fail (the counterexample). When \<open>Info\<close> succeeds on
  every entry that is not a directory, \<open>ReadDir\<close> succeeds, keeps the store's order and
  length, and returns unchanged every directory entry, whose \<open>Info\<close> is never called and
  may fail, and every file entry whose name has no recognised suffix.
\<close>

theorem ReadDir_passthrough:
  assumes "st_readdir st name = Inr entries"
    and "\<forall>e\<in>set entries. \<not> entry_IsDir e (store_now w) \<longrightarrow> \<not> isl (entry_Info e)"
  shows "ReadDir st name w = Inr (map (rewrite_entry (store_now w)) entries)
       \<and> (\<forall>k<length entries.
             entry_IsDir (entries ! k) (store_now w)
             \<or> \<not> hasCompressionSuffix (entry_Name (entries ! k)) \<longrightarrow>
             map (rewrite_entry (store_now w)) entries ! k = entries ! k)"
  using assms by (simp add: ReadDir_def ReadDir_loop_map rewrite_entry_passthrough)

theorem ReadDir_passthrough_witness:
  "st_readdir testFS ''dir'' =
     Inr [StoreEntry \<lparr>se_name = ''regular.txt'', se_isdir = False, se_type = 0,
                      se_info = rf_stat (MapFile ''regular.txt'' [0x68])\<rparr>,
          StoreEntry \<lparr>se_name = ''compressed.txt.gz'', se_isdir = False, se_type = 0,
                      se_info = rf_stat (MapFile ''compressed.txt.gz'' [0x1F, 0x61])\<rparr>,
          StoreEntry \<lparr>se_name = ''subdir'', se_isdir = True, se_type = 0x80000000,
                      se_info = Inl (notExist ''lstat'' ''dir/subdir'')\<rparr>]
   \<and> ReadDir testFS ''dir'' init_world =
     Inr [StoreEntry \<lparr>se_name = ''regular.txt'', se_isdir = False, se_type = 0,
                      se_info = rf_stat (MapFile ''regular.txt'' [0x68])\<rparr>,
          WrapperEntry (fixed_info \<lparr>si_name = ''compressed.txt.gz'', si_size = 2,
                                   si_mode = 0x1A4, si_modtime = 0, si_isdir = False\<rparr>)
                       ''compressed.txt'',
          StoreEntry \<lparr>se_name = ''subdir'', se_isdir = True, se_type = 0x80000000,
                      se_info = Inl (notExist ''lstat'' ''dir/subdir'')\<rparr>]"
proof -
  let ?es = "[StoreEntry \<lparr>se_name = ''regular.txt'', se_isdir = False, se_type = 0,
                      se_info = rf_stat (MapFile ''regular.txt'' [0x68])\<rparr>,
          StoreEntry \<lparr>se_name = ''compressed.txt.gz'', se_isdir = False, se_type = 0,
                      se_info = rf_stat (MapFile ''compressed.txt.gz'' [0x1F, 0x61])\<rparr>,
          StoreEntry \<lparr>se_name = ''subdir'', se_isdir = True, se_type = 0x80000000,
                      se_info = Inl (notExist ''lstat'' ''dir/subdir'')\<rparr>]"
  have rd: "st_readdir testFS ''dir'' = Inr ?es"
    by (simp add: testFS_def MapFS_def)
  have ok: "\<forall>e\<in>set ?es. \<not> entry_IsDir e (store_now init_world) \<longrightarrow> \<not> isl (entry_Info e)"
    by (simp add: MapFile_def)
  show ?thesis
    using rd ok ReadDir_passthrough [OF rd ok]
    by (simp add: init_world_def rewrite_entry_def hasCompressionSuffix_def trimCompressionSuffixes_def
        HasSuffix_def TrimSuffix_def MapFile_def)
qed

theorem ReadDir_passthrough_counterexample:
  "st_readdir testFS ''vanished'' =
     Inr [StoreEntry \<lparr>se_name = ''regular.txt'', se_isdir = False, se_type = 0,
                      se_info = Inl (notExist ''lstat'' ''vanished/regular.txt'')\<rparr>]
   \<and> \<not> hasCompressionSuffix ''regular.txt''
   \<and> ReadDir testFS ''vanished'' init_world = Inl (notExist ''lstat'' ''vanished/regular.txt'')"
  by (simp add: testFS_def MapFS_def ReadDir_def hasCompressionSuffix_def HasSuffix_def)

end
